theory Spec2Isabelle
  imports Complex_Main "HOL-Library.Multiset"
begin

section \<open>Python values, exceptions and the object store\<close>

text \<open>
  The load engine of GHEtool (\<^verbatim>\<open>HourlyGeothermalLoad.py\<close>) works on numpy arrays and on
  whatever object the caller hands to a setter. Every number of the model is a Python
  float and every array a float64 array, with the floats idealised as exact reals: rounding
  and overflow to infinity are not modelled. The objects a caller can pass are: a float, a
  list or a tuple of floats, a zero-dimensional float array (what \<^verbatim>\<open>np.array(5.0)\<close>
  builds) and a one-dimensional float array. Outside the model are Python integers and
  integer arrays (whose elementwise arithmetic wraps around at 64 bits), nested sequences,
  arrays of higher dimension and non-numeric elements.
\<close>

datatype error = TypeError | ValueError | AttributeError | IndexError

datatype pyobj =
    PyFloat real
  | PyList "real list"
  | PyTuple "real list"
  | NdArray0 real
  | NdArray1 "real list"

type_synonym ref = nat

text \<open>
  The instance: \<^verbatim>\<open>_hourly_heating_load\<close> and \<^verbatim>\<open>_hourly_cooling_load\<close> hold references to
  the stored objects; the other attributes are the ones the class reads from its base
  contract (\<^verbatim>\<open>simulation_period\<close>, \<^verbatim>\<open>dhw\<close>, \<^verbatim>\<open>start_month\<close>,
  \<^verbatim>\<open>all_months_equal\<close>).
\<close>

record HourlyGeothermalLoad =
  hourly_resolution :: bool
  simulation_period :: int
  dhw :: real
  start_month :: int
  all_months_equal :: bool
  stored_hourly_heating_load :: ref
  stored_hourly_cooling_load :: ref

text \<open>
  Objects and instances live in a store: identity is the reference, allocation takes the
  next unused reference, and assignment to an attribute stores a reference, never a copy.
\<close>

record heap =
  objs :: "ref \<Rightarrow> pyobj"
  next_obj :: ref
  insts :: "ref \<Rightarrow> HourlyGeothermalLoad"
  next_inst :: ref

definition alloc_obj :: "pyobj \<Rightarrow> heap \<Rightarrow> ref \<times> heap" where
  "alloc_obj v h = (next_obj h, h\<lparr>objs := (objs h)(next_obj h := v), next_obj := Suc (next_obj h)\<rparr>)"

definition alloc_inst :: "HourlyGeothermalLoad \<Rightarrow> heap \<Rightarrow> ref \<times> heap" where
  "alloc_inst v h = (next_inst h, h\<lparr>insts := (insts h)(next_inst h := v), next_inst := Suc (next_inst h)\<rparr>)"

definition update_inst :: "ref \<Rightarrow> (HourlyGeothermalLoad \<Rightarrow> HourlyGeothermalLoad) \<Rightarrow> heap \<Rightarrow> heap" where
  "update_inst self f h = h\<lparr>insts := (insts h)(self := f (insts h self))\<rparr>"

text \<open>An instance is allocated when it and the two objects it holds lie below the counters.\<close>

definition allocated :: "heap \<Rightarrow> ref \<Rightarrow> bool" where
  "allocated h self \<longleftrightarrow>
     self < next_inst h
     \<and> stored_hourly_heating_load (insts h self) < next_obj h
     \<and> stored_hourly_cooling_load (insts h self) < next_obj h"

section \<open>Library operations on objects\<close>

text \<open>\<^verbatim>\<open>isinstance(x, (np.ndarray, list, tuple))\<close>\<close>

fun is_array_like :: "pyobj \<Rightarrow> bool" where
  "is_array_like (PyFloat _) = False"
| "is_array_like (PyList _) = True"
| "is_array_like (PyTuple _) = True"
| "is_array_like (NdArray0 _) = True"
| "is_array_like (NdArray1 _) = True"

fun is_ndarray :: "pyobj \<Rightarrow> bool" where
  "is_ndarray (NdArray0 _) = True"
| "is_ndarray (NdArray1 _) = True"
| "is_ndarray _ = False"

text \<open>\<^verbatim>\<open>len(x)\<close>: a number and a zero-dimensional array have no length.\<close>

fun py_len :: "pyobj \<Rightarrow> error + nat" where
  "py_len (PyFloat _) = Inl TypeError"
| "py_len (PyList d) = Inr (length d)"
| "py_len (PyTuple d) = Inr (length d)"
| "py_len (NdArray0 _) = Inl TypeError"
| "py_len (NdArray1 d) = Inr (length d)"

text \<open>\<^verbatim>\<open>np.min\<close> and \<^verbatim>\<open>np.max\<close> of a one-dimensional array: an empty one has no extremum.\<close>

definition amin :: "real list \<Rightarrow> error + real" where
  "amin d = (if d = [] then Inl ValueError else Inr (Min (set d)))"

definition amax :: "real list \<Rightarrow> error + real" where
  "amax d = (if d = [] then Inl ValueError else Inr (Max (set d)))"

fun np_min :: "pyobj \<Rightarrow> error + real" where
  "np_min (PyFloat r) = Inr r"
| "np_min (PyList d) = amin d"
| "np_min (PyTuple d) = amin d"
| "np_min (NdArray0 r) = Inr r"
| "np_min (NdArray1 d) = amin d"

fun np_sum :: "pyobj \<Rightarrow> real" where
  "np_sum (PyFloat r) = r"
| "np_sum (PyList d) = sum_list d"
| "np_sum (PyTuple d) = sum_list d"
| "np_sum (NdArray0 r) = r"
| "np_sum (NdArray1 d) = sum_list d"

text \<open>\<^verbatim>\<open>np.array(x)\<close> builds a new array with the contents of \<open>x\<close>.\<close>

fun np_array :: "pyobj \<Rightarrow> pyobj" where
  "np_array (PyFloat r) = NdArray0 r"
| "np_array (PyList d) = NdArray1 d"
| "np_array (PyTuple d) = NdArray1 d"
| "np_array (NdArray0 r) = NdArray0 r"
| "np_array (NdArray1 d) = NdArray1 d"

definition np_zeros :: "nat \<Rightarrow> pyobj" where
  "np_zeros n = NdArray1 (replicate n 0)"

text \<open>
  Elementwise arithmetic of numpy on float64 arrays: operands are read as zero- or
  one-dimensional arrays, a length-one array is stretched, and other unequal lengths do not
  broadcast. Float arithmetic does not wrap around; the results are the exact sums and
  differences.
\<close>

fun as_nd :: "pyobj \<Rightarrow> real + real list" where
  "as_nd (PyFloat r) = Inl r"
| "as_nd (PyList d) = Inr d"
| "as_nd (PyTuple d) = Inr d"
| "as_nd (NdArray0 r) = Inl r"
| "as_nd (NdArray1 d) = Inr d"

definition broadcast1 :: "(real \<Rightarrow> real \<Rightarrow> real) \<Rightarrow> real list \<Rightarrow> real list \<Rightarrow> error + pyobj" where
  "broadcast1 f a b =
     (if length a = length b then Inr (NdArray1 (map2 f a b))
      else if length a = 1 then Inr (NdArray1 (map (f (hd a)) b))
      else if length b = 1 then Inr (NdArray1 (map (\<lambda>v. f v (hd b)) a))
      else Inl ValueError)"

definition np_binop :: "(real \<Rightarrow> real \<Rightarrow> real) \<Rightarrow> pyobj \<Rightarrow> pyobj \<Rightarrow> error + pyobj" where
  "np_binop f x y =
     (case as_nd x of
        Inl a \<Rightarrow> (case as_nd y of
                    Inl b \<Rightarrow> Inr (NdArray0 (f a b))
                  | Inr e \<Rightarrow> Inr (NdArray1 (map (f a) e)))
      | Inr d \<Rightarrow> (case as_nd y of
                    Inl b \<Rightarrow> Inr (NdArray1 (map (\<lambda>v. f v b) d))
                  | Inr e \<Rightarrow> broadcast1 f d e))"

text \<open>
  \<^verbatim>\<open>x + y\<close>: numpy takes over as soon as one operand is an array; two lists or two tuples
  are concatenated; a list or tuple and a number do not add.
\<close>

fun py_add_plain :: "pyobj \<Rightarrow> pyobj \<Rightarrow> error + pyobj" where
  "py_add_plain (PyFloat a) (PyFloat b) = Inr (PyFloat (a + b))"
| "py_add_plain (PyList a) (PyList b) = Inr (PyList (a @ b))"
| "py_add_plain (PyTuple a) (PyTuple b) = Inr (PyTuple (a @ b))"
| "py_add_plain _ _ = Inl TypeError"

definition py_add :: "pyobj \<Rightarrow> pyobj \<Rightarrow> error + pyobj" where
  "py_add x y = (if is_ndarray x \<or> is_ndarray y then np_binop (+) x y else py_add_plain x y)"

text \<open>\<^verbatim>\<open>x - y\<close>: lists and tuples have no subtraction.\<close>

fun py_sub_plain :: "pyobj \<Rightarrow> pyobj \<Rightarrow> error + pyobj" where
  "py_sub_plain (PyFloat a) (PyFloat b) = Inr (PyFloat (a - b))"
| "py_sub_plain _ _ = Inl TypeError"

definition py_sub :: "pyobj \<Rightarrow> pyobj \<Rightarrow> error + pyobj" where
  "py_sub x y = (if is_ndarray x \<or> is_ndarray y then np_binop (-) x y else py_sub_plain x y)"

text \<open>
  Slices \<^verbatim>\<open>x[n:]\<close> and \<^verbatim>\<open>x[:n]\<close> for \<open>n \<ge> 0\<close> (bounds are clipped), and
  \<^verbatim>\<open>np.concatenate((x, y))\<close>, which always builds a new array.
\<close>

fun slice_from :: "pyobj \<Rightarrow> nat \<Rightarrow> error + pyobj" where
  "slice_from (PyFloat _) n = Inl TypeError"
| "slice_from (PyList d) n = Inr (PyList (drop n d))"
| "slice_from (PyTuple d) n = Inr (PyTuple (drop n d))"
| "slice_from (NdArray0 _) n = Inl IndexError"
| "slice_from (NdArray1 d) n = Inr (NdArray1 (drop n d))"

fun slice_to :: "pyobj \<Rightarrow> nat \<Rightarrow> error + pyobj" where
  "slice_to (PyFloat _) n = Inl TypeError"
| "slice_to (PyList d) n = Inr (PyList (take n d))"
| "slice_to (PyTuple d) n = Inr (PyTuple (take n d))"
| "slice_to (NdArray0 _) n = Inl IndexError"
| "slice_to (NdArray1 d) n = Inr (NdArray1 (take n d))"

definition np_concatenate :: "pyobj \<Rightarrow> pyobj \<Rightarrow> error + pyobj" where
  "np_concatenate x y =
     (case as_nd x of
        Inl _ \<Rightarrow> Inl ValueError
      | Inr a \<Rightarrow> (case as_nd y of Inl _ \<Rightarrow> Inl ValueError | Inr b \<Rightarrow> Inr (NdArray1 (a @ b))))"

section \<open>Validation and the setters\<close>

text \<open>
  \<^verbatim>\<open>_check_input\<close>: the three tests of the source in their order. The calls to the logger
  are not modelled.
\<close>

definition check_input :: "pyobj \<Rightarrow> error + bool" where
  "check_input load_array =
     (if \<not> is_array_like load_array then Inr False
      else (case py_len load_array of
              Inl e \<Rightarrow> Inl e
            | Inr n \<Rightarrow>
                (if n \<noteq> 8760 then Inr False
                 else (case np_min load_array of
                         Inl e \<Rightarrow> Inl e
                       | Inr m \<Rightarrow> (if m < 0 then Inr False else Inr True)))))"

text \<open>
  The property setters: when the check passes, the attribute is bound to the object that
  was passed; otherwise \<^verbatim>\<open>ValueError\<close> is raised (the spec's \<^verbatim>\<open>InvalidLoadInput\<close>). An
  exception raised inside the check itself passes through.
\<close>

definition hourly_heating_load_setter :: "ref \<Rightarrow> ref \<Rightarrow> heap \<Rightarrow> (error + unit) \<times> heap" where
  "hourly_heating_load_setter self load h =
     (case check_input (objs h load) of
        Inl e \<Rightarrow> (Inl e, h)
      | Inr ok \<Rightarrow>
          if ok then (Inr (), update_inst self (\<lambda>s. s\<lparr>stored_hourly_heating_load := load\<rparr>) h)
          else (Inl ValueError, h))"

definition set_hourly_heating :: "ref \<Rightarrow> ref \<Rightarrow> heap \<Rightarrow> (error + unit) \<times> heap" where
  "set_hourly_heating self load h = hourly_heating_load_setter self load h"

definition hourly_cooling_load_setter :: "ref \<Rightarrow> ref \<Rightarrow> heap \<Rightarrow> (error + unit) \<times> heap" where
  "hourly_cooling_load_setter self load h =
     (case check_input (objs h load) of
        Inl e \<Rightarrow> (Inl e, h)
      | Inr ok \<Rightarrow>
          if ok then (Inr (), update_inst self (\<lambda>s. s\<lparr>stored_hourly_cooling_load := load\<rparr>) h)
          else (Inl ValueError, h))"

definition set_hourly_cooling :: "ref \<Rightarrow> ref \<Rightarrow> heap \<Rightarrow> (error + unit) \<times> heap" where
  "set_hourly_cooling self load h = hourly_cooling_load_setter self load h"

section \<open>Calendar rotation and the getters\<close>

text \<open>
  Modelled from the spec: the base contract's \<^verbatim>\<open>UPM\<close> property (hours per month), which
  is not among the sources. It is the non-leap-year calendar, or 8760/12 hours for every
  month in the all-months-equal mode.
\<close>

definition UPM :: "HourlyGeothermalLoad \<Rightarrow> nat list" where
  "UPM self =
     (if all_months_equal self then replicate 12 730
      else [744, 672, 744, 720, 744, 720, 744, 744, 720, 744, 720, 744])"

text \<open>
  \<^verbatim>\<open>_start_hour\<close>: \<^verbatim>\<open>int(np.sum([self.UPM[i] for i in range(self.start_month - 1)]))\<close>.
  The range is empty for a start month below 2; an index past the last month raises.
\<close>

definition start_hour :: "HourlyGeothermalLoad \<Rightarrow> error + nat" where
  "start_hour self =
     (let n = nat (start_month self - 1)
      in if n \<le> length (UPM self) then Inr (sum_list (map (\<lambda>i. UPM self ! i) [0..<n]))
         else Inl IndexError)"

text \<open>
  \<^verbatim>\<open>correct_for_start_month\<close>: the argument itself for start month 1, otherwise
  \<^verbatim>\<open>np.concatenate((array[self._start_hour:], array[:self._start_hour]))\<close>.
\<close>

definition correct_for_start_month :: "HourlyGeothermalLoad \<Rightarrow> pyobj \<Rightarrow> error + pyobj" where
  "correct_for_start_month self array =
     (if start_month self = 1 then Inr array
      else case start_hour self of
             Inl e \<Rightarrow> Inl e
           | Inr sh \<Rightarrow>
               (case slice_from array sh of
                  Inl e \<Rightarrow> Inl e
                | Inr a \<Rightarrow>
                    (case slice_to array sh of
                       Inl e \<Rightarrow> Inl e
                     | Inr b \<Rightarrow> np_concatenate a b)))"

text \<open>
  The property getters. Heating:
  \<^verbatim>\<open>self.correct_for_start_month(self._hourly_heating_load + self.dhw / 8760)\<close>;
  cooling: \<^verbatim>\<open>self.correct_for_start_month(self._hourly_cooling_load)\<close>.
\<close>

definition hourly_heating_load :: "ref \<Rightarrow> heap \<Rightarrow> error + pyobj" where
  "hourly_heating_load self h =
     (let s = insts h self
      in case py_add (objs h (stored_hourly_heating_load s)) (PyFloat (dhw s / 8760)) of
           Inl e \<Rightarrow> Inl e
         | Inr a \<Rightarrow> correct_for_start_month s a)"

definition hourly_cooling_load :: "ref \<Rightarrow> heap \<Rightarrow> error + pyobj" where
  "hourly_cooling_load self h =
     (let s = insts h self
      in correct_for_start_month s (objs h (stored_hourly_cooling_load s)))"

text \<open>\<^verbatim>\<open>imbalance\<close>: \<^verbatim>\<open>np.sum(self.hourly_cooling_load - self.hourly_heating_load)\<close>.\<close>

definition imbalance :: "ref \<Rightarrow> heap \<Rightarrow> error + real" where
  "imbalance self h =
     (case hourly_cooling_load self h of
        Inl e \<Rightarrow> Inl e
      | Inr c \<Rightarrow>
          (case hourly_heating_load self h of
             Inl e \<Rightarrow> Inl e
           | Inr g \<Rightarrow> (case py_sub c g of Inl e \<Rightarrow> Inl e | Inr d \<Rightarrow> Inr (np_sum d))))"

section \<open>Monthly resampling\<close>

text \<open>\<^verbatim>\<open>np.cumsum\<close>: the running totals.\<close>

fun cumsum_from :: "nat \<Rightarrow> nat list \<Rightarrow> nat list" where
  "cumsum_from acc [] = []"
| "cumsum_from acc (x # xs) = (acc + x) # cumsum_from (acc + x) xs"

definition np_cumsum :: "nat list \<Rightarrow> nat list" where
  "np_cumsum xs = cumsum_from 0 xs"

text \<open>
  \<^verbatim>\<open>np.array_split(ary, indices)\<close>: the division points are 0, the indices and the length;
  consecutive points bound one sub-array each, cut out by a slice.
\<close>

definition array_split :: "real list \<Rightarrow> nat list \<Rightarrow> real list list" where
  "array_split ary indices =
     map (\<lambda>(st, en). take (en - st) (drop st ary)) (zip (0 # indices) (indices @ [length ary]))"

fun array_split_obj :: "pyobj \<Rightarrow> nat list \<Rightarrow> error + real list list" where
  "array_split_obj (PyFloat _) indices = Inl TypeError"
| "array_split_obj (PyList d) indices = Inr (array_split d indices)"
| "array_split_obj (PyTuple d) indices = Inr (array_split d indices)"
| "array_split_obj (NdArray0 _) indices = Inl IndexError"
| "array_split_obj (NdArray1 d) indices = Inr (array_split d indices)"

text \<open>
  \<^verbatim>\<open>np.max(data, axis=1)\<close> and \<^verbatim>\<open>np.sum(data, axis=1)\<close> on a list of arrays: the rows must
  have one length to form a matrix, and a maximum needs non-empty rows.
\<close>

definition np_max_axis1 :: "real list list \<Rightarrow> error + real list" where
  "np_max_axis1 data =
     (if \<not> list_all (\<lambda>c. length c = length (hd data)) data then Inl ValueError
      else if hd data = [] then Inl ValueError
      else Inr (map (\<lambda>c. Max (set c)) data))"

definition np_sum_axis1 :: "real list list \<Rightarrow> error + real list" where
  "np_sum_axis1 data =
     (if \<not> list_all (\<lambda>c. length c = length (hd data)) data then Inl ValueError
      else Inr (map sum_list data))"

text \<open>\<^verbatim>\<open>[np.max(i) for i in data]\<close>: stops at the first empty chunk.\<close>

fun max_each :: "real list list \<Rightarrow> error + real list" where
  "max_each [] = Inr []"
| "max_each (c # cs) =
     (case amax c of
        Inl e \<Rightarrow> Inl e
      | Inr m \<Rightarrow> (case max_each cs of Inl e \<Rightarrow> Inl e | Inr ms \<Rightarrow> Inr (m # ms)))"

text \<open>
  \<^verbatim>\<open>resample_to_monthly\<close>: the chunks are cut at \<^verbatim>\<open>np.cumsum(self.UPM)[:-1]\<close>; the result is
  the pair (peak per month, baseload per month).
\<close>

definition resample_to_monthly ::
  "HourlyGeothermalLoad \<Rightarrow> pyobj \<Rightarrow> error + (real list \<times> real list)" where
  "resample_to_monthly self hourly_load =
     (case array_split_obj hourly_load (butlast (np_cumsum (UPM self))) of
        Inl e \<Rightarrow> Inl e
      | Inr data \<Rightarrow>
          if all_months_equal self then
            (case np_max_axis1 data of
               Inl e \<Rightarrow> Inl e
             | Inr peak \<Rightarrow>
                 (case np_sum_axis1 data of Inl e \<Rightarrow> Inl e | Inr base \<Rightarrow> Inr (peak, base)))
          else
            (case max_each data of
               Inl e \<Rightarrow> Inl e
             | Inr peak \<Rightarrow> Inr (peak, map sum_list data)))"

definition baseload_cooling :: "ref \<Rightarrow> heap \<Rightarrow> error + real list" where
  "baseload_cooling self h =
     (case hourly_cooling_load self h of
        Inl e \<Rightarrow> Inl e
      | Inr a \<Rightarrow> (case resample_to_monthly (insts h self) a of Inl e \<Rightarrow> Inl e | Inr r \<Rightarrow> Inr (snd r)))"

definition baseload_heating :: "ref \<Rightarrow> heap \<Rightarrow> error + real list" where
  "baseload_heating self h =
     (case hourly_heating_load self h of
        Inl e \<Rightarrow> Inl e
      | Inr a \<Rightarrow> (case resample_to_monthly (insts h self) a of Inl e \<Rightarrow> Inl e | Inr r \<Rightarrow> Inr (snd r)))"

definition peak_cooling :: "ref \<Rightarrow> heap \<Rightarrow> error + real list" where
  "peak_cooling self h =
     (case hourly_cooling_load self h of
        Inl e \<Rightarrow> Inl e
      | Inr a \<Rightarrow> (case resample_to_monthly (insts h self) a of Inl e \<Rightarrow> Inl e | Inr r \<Rightarrow> Inr (fst r)))"

definition peak_heating :: "ref \<Rightarrow> heap \<Rightarrow> error + real list" where
  "peak_heating self h =
     (case hourly_heating_load self h of
        Inl e \<Rightarrow> Inl e
      | Inr a \<Rightarrow> (case resample_to_monthly (insts h self) a of Inl e \<Rightarrow> Inl e | Inr r \<Rightarrow> Inr (fst r)))"

section \<open>Construction and addition\<close>

text \<open>
  Modelled from the spec: the initialiser of the base contract as this class calls it,
  \<^verbatim>\<open>super().__init__(hourly_resolution=True, simulation_period=simulation_period)\<close>. The
  \<^verbatim>\<open>_LoadData.__init__\<close> among the sources takes \<^verbatim>\<open>hourly_resolution\<close> only and would
  refuse that call with a \<^verbatim>\<open>TypeError\<close>; it declares none of \<^verbatim>\<open>simulation_period\<close>,
  \<^verbatim>\<open>dhw\<close>, \<^verbatim>\<open>start_month\<close>, \<^verbatim>\<open>all_months_equal\<close> and \<^verbatim>\<open>UPM\<close>, which this class
  reads. The base contract of the spec owns these attributes, so the initialiser modelled
  here accepts the call, records the resolution flag and the simulation period, and sets
  \<^verbatim>\<open>start_month\<close> and \<^verbatim>\<open>all_months_equal\<close> to values that are a parameter of the
  model; \<^verbatim>\<open>dhw\<close> holds 0, the default of the constructor, until it is assigned.
\<close>

record base_init =
  init_start_month :: int
  init_all_months_equal :: bool

text \<open>
  \<^verbatim>\<open>__init__\<close>, over the base initialiser modelled above: both slots are first bound to
  fresh zero arrays; each argument is then
  replaced by zeros when it is \<^verbatim>\<open>None\<close> and copied by \<^verbatim>\<open>np.array\<close> otherwise, and handed
  to the property setter; \<^verbatim>\<open>dhw\<close> is assigned last. An exception leaves the store as it
  was when raised.
\<close>

definition init_HourlyGeothermalLoad ::
  "base_init \<Rightarrow> ref option \<Rightarrow> ref option \<Rightarrow> int \<Rightarrow> real \<Rightarrow> heap \<Rightarrow> (error + ref) \<times> heap" where
  "init_HourlyGeothermalLoad base heating_load cooling_load sim_period dhw_arg h =
     (let (z1, h1) = alloc_obj (np_zeros 8760) h;
          (z2, h2) = alloc_obj (np_zeros 8760) h1;
          (self, h3) = alloc_inst
             \<lparr>hourly_resolution = True, simulation_period = sim_period, dhw = 0,
              start_month = init_start_month base,
              all_months_equal = init_all_months_equal base,
              stored_hourly_heating_load = z1, stored_hourly_cooling_load = z2\<rparr> h2;
          (hl, h4) = alloc_obj
             (case heating_load of None \<Rightarrow> np_zeros 8760 | Some r \<Rightarrow> np_array (objs h3 r)) h3
      in case hourly_heating_load_setter self hl h4 of
           (Inl e, h5) \<Rightarrow> (Inl e, h5)
         | (Inr _, h5) \<Rightarrow>
             (let (cl, h6) = alloc_obj
                    (case cooling_load of None \<Rightarrow> np_zeros 8760 | Some r \<Rightarrow> np_array (objs h5 r)) h5
              in case hourly_cooling_load_setter self cl h6 of
                   (Inl e, h7) \<Rightarrow> (Inl e, h7)
                 | (Inr _, h7) \<Rightarrow> (Inr self, update_inst self (\<lambda>s. s\<lparr>dhw := dhw_arg\<rparr>) h7)))"

text \<open>
  The right operand of \<^verbatim>\<open>+\<close> is either an instance of this class or some other object.
  Of another object only the outcome of \<^verbatim>\<open>other.__add__(self)\<close> matters: the attribute is
  missing (\<open>None\<close>), the call raises, or it returns a value (kept opaque). What that
  foreign call does to the store is not modelled.
\<close>

datatype operand = Load ref | Foreign "(error + nat) option"

datatype add_value = NewLoad ref | ForeignValue nat

datatype warning = SimulationPeriodWarning int

text \<open>
  \<^verbatim>\<open>__add__\<close>: the warning comes first, then the two sums are evaluated as arguments, then
  the new instance is built. For another object the call is handed over, and only a
  \<^verbatim>\<open>TypeError\<close> from it is caught and raised anew.
\<close>

definition add ::
  "base_init \<Rightarrow> ref \<Rightarrow> operand \<Rightarrow> heap \<Rightarrow> warning list \<times> (error + add_value) \<times> heap" where
  "add base self other h =
     (case other of
        Load oth \<Rightarrow>
          (let a = insts h self;
               b = insts h oth;
               ws = (if simulation_period a \<noteq> simulation_period b
                     then [SimulationPeriodWarning (max (simulation_period a) (simulation_period b))]
                     else [])
           in case py_add (objs h (stored_hourly_heating_load a)) (objs h (stored_hourly_heating_load b)) of
                Inl e \<Rightarrow> (ws, Inl e, h)
              | Inr hs \<Rightarrow>
                  (let (r1, h1) = alloc_obj hs h
                   in case py_add (objs h1 (stored_hourly_cooling_load a)) (objs h1 (stored_hourly_cooling_load b)) of
                        Inl e \<Rightarrow> (ws, Inl e, h1)
                      | Inr cs \<Rightarrow>
                          (let (r2, h2) = alloc_obj cs h1
                           in case init_HourlyGeothermalLoad base (Some r1) (Some r2)
                                     (max (simulation_period a) (simulation_period b))
                                     (dhw a + dhw b) h2 of
                                (Inl e, h3) \<Rightarrow> (ws, Inl e, h3)
                              | (Inr r, h3) \<Rightarrow> (ws, Inr (NewLoad r), h3))))
      | Foreign m \<Rightarrow>
          (case m of
             None \<Rightarrow> ([], Inl AttributeError, h)
           | Some (Inl e) \<Rightarrow> (case e of TypeError \<Rightarrow> ([], Inl TypeError, h) | _ \<Rightarrow> ([], Inl e, h))
           | Some (Inr v) \<Rightarrow> ([], Inr (ForeignValue v), h)))"

section \<open>The spec's reference notions\<close>

text \<open>
  The spec describes the monthly chunks as contiguous pieces whose sizes are the hours per
  month. This is that description, to be compared with what \<^verbatim>\<open>np.array_split\<close> yields.
\<close>

fun month_chunks :: "nat list \<Rightarrow> 'a list \<Rightarrow> 'a list list" where
  "month_chunks [] xs = []"
| "month_chunks (n # ns) xs = take n xs # month_chunks ns (drop n xs)"

text \<open>
  The spec's \<^verbatim>\<open>rotate_for_start_month(series, start_month, hours_per_month)\<close>: the series
  itself for start month 1, otherwise the cyclic left rotation by the hours of the months
  before the start month.
\<close>

definition rotate_for_start_month :: "real list \<Rightarrow> int \<Rightarrow> nat list \<Rightarrow> real list" where
  "rotate_for_start_month series m hours_per_month =
     (if m = 1 then series
      else (let sh = sum_list (take (nat (m - 1)) hours_per_month)
            in drop sh series @ take sh series))"

text \<open>
  The spec's two kinds of candidate. A failing one is a single scalar instead of a sequence
  (a float, or a zero-dimensional array, which holds one number and has no length), or a
  list, tuple or one-dimensional array whose length is not 8760 or that holds a negative
  value; a valid one is a list, tuple or one-dimensional array of 8760 non-negative values.
\<close>

definition invalid_candidate :: "pyobj \<Rightarrow> bool" where
  "invalid_candidate x =
     (case as_nd x of
        Inl _ \<Rightarrow> True
      | Inr d \<Rightarrow> length d \<noteq> 8760 \<or> (\<exists>v\<in>set d. v < 0))"

definition valid_candidate :: "pyobj \<Rightarrow> bool" where
  "valid_candidate x =
     (case as_nd x of
        Inl _ \<Rightarrow> False
      | Inr d \<Rightarrow> length d = 8760 \<and> (\<forall>v\<in>set d. 0 \<le> v))"

text \<open>
  One store extends another when nothing allocated in the first has changed in the second.
\<close>

definition heap_extends :: "heap \<Rightarrow> heap \<Rightarrow> bool" where
  "heap_extends h h' \<longleftrightarrow>
     next_obj h \<le> next_obj h' \<and> next_inst h \<le> next_inst h'
     \<and> (\<forall>p<next_obj h. objs h' p = objs h p)
     \<and> (\<forall>q<next_inst h. insts h' q = insts h q)"

section \<open>A sample store\<close>

text \<open>
  Five instances with their ten arrays, and four candidates for the setters: a number, a
  list that is one hour short, a list with a negative value, and a valid list. The first
  two instances are the merge example of the spec.
\<close>

definition example_base :: base_init where
  "example_base = \<lparr>init_start_month = 1, init_all_months_equal = True\<rparr>"

definition example_objs :: "pyobj list" where
  "example_objs =
     [NdArray1 (replicate 8760 1), NdArray1 (replicate 8760 2),
      NdArray1 (replicate 8760 3), NdArray1 (replicate 8760 4),
      NdArray1 (replicate 8760 0), NdArray1 (replicate 8760 0),
      NdArray1 (replicate 8760 1), NdArray1 (replicate 8760 0),
      NdArray1 (replicate 8760 0), NdArray1 (replicate 8760 1),
      PyFloat 5, PyList (replicate 8759 0), PyList (- 1 # replicate 8759 0),
      PyList (replicate 8760 0)]"

definition example_load :: "int \<Rightarrow> real \<Rightarrow> int \<Rightarrow> bool \<Rightarrow> ref \<Rightarrow> ref \<Rightarrow> HourlyGeothermalLoad" where
  "example_load sp d m eq hl cl =
     \<lparr>hourly_resolution = True, simulation_period = sp, dhw = d, start_month = m,
      all_months_equal = eq, stored_hourly_heating_load = hl, stored_hourly_cooling_load = cl\<rparr>"

definition example_insts :: "HourlyGeothermalLoad list" where
  "example_insts =
     [example_load 20 0 1 True 0 1,
      example_load 25 100 3 False 2 3,
      example_load 20 8760 9 False 4 5,
      example_load 20 0 1 False 6 7,
      example_load 20 0 1 False 8 9]"

definition example_heap :: heap where
  "example_heap =
     \<lparr>objs = (\<lambda>r. if r < 14 then example_objs ! r else PyFloat 0), next_obj = 14,
      insts = (\<lambda>r. if r < 5 then example_insts ! r else example_load 0 0 1 True 0 0),
      next_inst = 5\<rparr>"

text \<open>
  Three later states of the sample store: after \<^verbatim>\<open>np.array(5.0)\<close> has built a
  zero-dimensional array (object 14); after a list of 8760 ones has been built (object
  14); and after both operands of the merge example have been given the valid list
  (object 13) as heating load by \<^verbatim>\<open>set_hourly_heating\<close>.
\<close>

definition example_zero_dim :: heap where
  "example_zero_dim = snd (alloc_obj (np_array (PyFloat 5)) example_heap)"

definition example_ones_list :: heap where
  "example_ones_list = snd (alloc_obj (PyList (replicate 8760 1)) example_heap)"

definition example_list_holders :: heap where
  "example_list_holders =
     snd (set_hourly_heating 1 13 (snd (set_hourly_heating 0 13 example_heap)))"

section \<open>Validation\<close>

lemma check_input_1d:
  assumes "as_nd x = Inr d"
  shows "check_input x = Inr (length d = 8760 \<and> (\<forall>v\<in>set d. 0 \<le> v))"
proof (cases "length d = 8760")
  case False
  with assms show ?thesis by (cases x) (simp_all add: check_input_def)
next
  case True
  then have ne: "d \<noteq> []" by auto
  have "(Min (set d) < 0) = (\<exists>v\<in>set d. v < 0)" using ne by (simp add: Min_less_iff)
  then have "amin d = Inr (Min (set d))" "(\<not> Min (set d) < 0) = (\<forall>v\<in>set d. 0 \<le> v)"
    using ne by (auto simp: amin_def not_less)
  with assms True show ?thesis by (cases x) (auto simp: check_input_def)
qed

lemma check_input_scalar: "check_input (PyFloat r) = Inr False"
  by (simp add: check_input_def)


section \<open>Chunks, sums and rotations of lists\<close>

lemma map_nth_upt_take: "n \<le> length xs \<Longrightarrow> map (\<lambda>i. xs ! i) [0..<n] = take n xs"
  by (simp add: list_eq_iff_nth_eq)

lemma concat_month_chunks: "concat (month_chunks ns xs) = take (sum_list ns) xs"
  by (induction ns arbitrary: xs) (simp_all add: take_add)

lemma length_month_chunks: "length (month_chunks ns xs) = length ns"
  by (induction ns arbitrary: xs) simp_all

lemma map_length_month_chunks: "sum_list ns \<le> length xs \<Longrightarrow> map length (month_chunks ns xs) = ns"
  by (induction ns arbitrary: xs) simp_all

lemma sum_list_month_chunks:
  fixes xs :: "real list"
  shows "sum_list ns = length xs \<Longrightarrow> sum_list (map sum_list (month_chunks ns xs)) = sum_list xs"
proof -
  have "sum_list (map sum_list (month_chunks ns ys)) = sum_list (concat (month_chunks ns ys))" for ys :: "real list"
    by (induction ns arbitrary: ys) simp_all
  then show "sum_list ns = length xs \<Longrightarrow> sum_list (map sum_list (month_chunks ns xs)) = sum_list xs"
    by (simp add: concat_month_chunks)
qed

lemma split_from:
  "st + sum_list (u # us) = length xs \<Longrightarrow>
   map (\<lambda>(s, e). take (e - s) (drop s xs))
       (zip (st # butlast (cumsum_from st (u # us))) (butlast (cumsum_from st (u # us)) @ [length xs]))
   = month_chunks (u # us) (drop st xs)"
proof (induction us arbitrary: u st)
  case Nil
  then show ?case by simp
next
  case (Cons v vs)
  have "(st + u) + sum_list (v # vs) = length xs" using Cons.prems by simp
  from Cons.IH [OF this] show ?case by (simp add: add.commute)
qed

lemma array_split_month_chunks:
  "upm \<noteq> [] \<Longrightarrow> sum_list upm = length xs \<Longrightarrow>
   array_split xs (butlast (np_cumsum upm)) = month_chunks upm xs"
  using split_from [of 0 "hd upm" "tl upm" xs]
  by (cases upm) (simp_all add: array_split_def np_cumsum_def)

lemma max_each_nonempty:
  "\<forall>c\<in>set data. c \<noteq> [] \<Longrightarrow> max_each data = Inr (map (\<lambda>c. Max (set c)) data)"
  by (induction data) (simp_all add: amax_def)

lemma sum_list_map2_minus:
  fixes a b :: "real list"
  shows "length a = length b \<Longrightarrow> sum_list (map2 (-) a b) = sum_list a - sum_list b"
  by (induction a b rule: list_induct2) simp_all

lemma sum_list_rot:
  fixes xs :: "real list"
  shows "sum_list (drop n xs @ take n xs) = sum_list xs"
proof -
  have "sum_list (take n xs @ drop n xs) = sum_list xs" by simp
  then show ?thesis by (simp del: append_take_drop_id add: add.commute)
qed

lemma sum_list_add_const:
  fixes xs :: "real list"
  shows "sum_list (map (\<lambda>v. v + c) xs) = sum_list xs + real (length xs) * c"
  by (induction xs) (simp_all add: algebra_simps)

lemma rot_rotate: "n \<le> length xs \<Longrightarrow> drop n xs @ take n xs = rotate n xs"
  by (cases "n = length xs") (simp_all add: rotate_drop_take)

lemma rot_nth:
  assumes "n \<le> length xs" "i < length xs"
  shows "(drop n xs @ take n xs) ! i = xs ! ((i + n) mod length xs)"
  using assms by (simp add: rot_rotate nth_rotate add.commute)

lemma rot_back:
  "n \<le> length xs \<Longrightarrow>
   drop (length xs - n) (drop n xs @ take n xs) @ take (length xs - n) (drop n xs @ take n xs) = xs"
  by simp

lemma rot_mset: "mset (drop n xs @ take n xs) = mset xs"
proof -
  have "mset (take n xs @ drop n xs) = mset xs" by simp
  then show ?thesis by (simp del: append_take_drop_id add: union_commute)
qed

lemma rot_index_bij:
  fixes n N :: nat
  assumes "n \<le> N" "0 < N"
  shows "bij_betw (\<lambda>i. (i + n) mod N) {..<N} {..<N}"
proof -
  have inj: "inj_on (\<lambda>i. (i + n) mod N) {..<N}"
  proof (rule inj_onI)
    fix i j assume "i \<in> {..<N}" "j \<in> {..<N}" "(i + n) mod N = (j + n) mod N"
    moreover have "(k + n) mod N = (if k + n < N then k + n else k + n - N)" if "k < N" for k
      using that assms by (simp add: mod_if)
    ultimately show "i = j" by (auto split: if_splits)
  qed
  have "(\<lambda>i. (i + n) mod N) ` {..<N} \<subseteq> {..<N}" using assms by auto
  then have "(\<lambda>i. (i + n) mod N) ` {..<N} = {..<N}" using inj by (simp add: endo_inj_surj)
  with inj show ?thesis by (simp add: bij_betw_def)
qed

section \<open>The calendar, rotation and resampling of an instance\<close>

lemma UPM_length: "length (UPM s) = 12"
  by (simp add: UPM_def)

lemma UPM_sum: "sum_list (UPM s) = 8760"
  by (simp add: UPM_def sum_list_replicate)

lemma UPM_pos: "u \<in> set (UPM s) \<Longrightarrow> 0 < u"
  by (auto simp: UPM_def split: if_splits)

lemma UPM_nonempty: "UPM s \<noteq> []"
  using UPM_length [of s] by auto

lemma take_UPM_le: "sum_list (take k (UPM s)) \<le> 8760"
proof -
  have "sum_list (take k (UPM s)) + sum_list (drop k (UPM s)) = sum_list (UPM s)"
    by (metis append_take_drop_id sum_list_append)
  then show ?thesis by (simp add: UPM_sum)
qed

lemma start_hour_eq:
  "start_month s \<le> 13 \<Longrightarrow> start_hour s = Inr (sum_list (take (nat (start_month s - 1)) (UPM s)))"
  by (simp add: start_hour_def Let_def UPM_length map_nth_upt_take)

lemma chunks_UPM_nonempty:
  assumes "length xs = 8760" "c \<in> set (month_chunks (UPM s) xs)"
  shows "c \<noteq> []"
proof -
  have "map length (month_chunks (UPM s) xs) = UPM s"
    using assms(1) by (simp add: map_length_month_chunks UPM_sum)
  then have "length c \<in> set (UPM s)" using assms(2) by (metis image_eqI set_map)
  then show ?thesis using UPM_pos by fastforce
qed

lemma resample_month_chunks:
  assumes "as_nd x = Inr xs" "length xs = 8760"
  shows "resample_to_monthly s x =
           Inr (map (\<lambda>c. Max (set c)) (month_chunks (UPM s) xs), map sum_list (month_chunks (UPM s) xs))"
proof -
  have split: "array_split_obj x (butlast (np_cumsum (UPM s))) = Inr (month_chunks (UPM s) xs)"
    using assms by (cases x) (simp_all add: array_split_month_chunks UPM_nonempty UPM_sum)
  have len: "map length (month_chunks (UPM s) xs) = UPM s"
    using assms(2) by (simp add: map_length_month_chunks UPM_sum)
  show ?thesis
  proof (cases "all_months_equal s")
    case False
    then show ?thesis
      using split max_each_nonempty [of "month_chunks (UPM s) xs"] chunks_UPM_nonempty [OF assms(2)]
      by (simp add: resample_to_monthly_def)
  next
    case True
    then have u: "UPM s = replicate 12 730" by (simp add: UPM_def)
    have all: "\<forall>c\<in>set (month_chunks (UPM s) xs). length c = 730"
    proof
      fix c assume "c \<in> set (month_chunks (UPM s) xs)"
      then have "length c \<in> set (UPM s)" using len by (metis image_eqI set_map)
      then show "length c = 730" by (simp add: u)
    qed
    have "length (month_chunks (UPM s) xs) = 12" by (simp add: length_month_chunks UPM_length)
    then have ne: "month_chunks (UPM s) xs \<noteq> []" by auto
    then have hdin: "hd (month_chunks (UPM s) xs) \<in> set (month_chunks (UPM s) xs)" by simp
    then have "length (hd (month_chunks (UPM s) xs)) = 730" using all by blast
    then have "list_all (\<lambda>c. length c = length (hd (month_chunks (UPM s) xs))) (month_chunks (UPM s) xs)"
      and "hd (month_chunks (UPM s) xs) \<noteq> []"
      using all by (auto simp: list_all_iff)
    then show ?thesis
      using True split by (simp add: resample_to_monthly_def np_max_axis1_def np_sum_axis1_def)
  qed
qed

lemma correct_for_start_month_nd:
  assumes "as_nd x = Inr xs" "start_month s \<le> 13"
  shows "\<exists>y. correct_for_start_month s x = Inr y
            \<and> as_nd y = Inr (rotate_for_start_month xs (start_month s) (UPM s))"
  using assms
  by (cases x)
     (simp_all add: correct_for_start_month_def start_hour_eq np_concatenate_def
        rotate_for_start_month_def Let_def)

lemma correct_for_start_month_arr:
  assumes "start_month s \<le> 13"
  shows "correct_for_start_month s (NdArray1 xs)
           = Inr (NdArray1 (rotate_for_start_month xs (start_month s) (UPM s)))"
  using assms
  by (simp add: correct_for_start_month_def start_hour_eq np_concatenate_def
        rotate_for_start_month_def Let_def)

lemma length_rotate_for_start_month:
  "length (rotate_for_start_month xs m u) = length xs"
  by (auto simp: rotate_for_start_month_def Let_def)

lemma sum_rotate_for_start_month:
  "sum_list (rotate_for_start_month xs m u) = sum_list xs"
  using sum_list_rot [of "sum_list (take (nat (m - 1)) u)" xs]
  by (simp add: rotate_for_start_month_def Let_def del: sum_list_append)

lemma heating_getter_arr:
  assumes "objs h (stored_hourly_heating_load (insts h self)) = NdArray1 hs"
    and "start_month (insts h self) \<le> 13"
  shows "hourly_heating_load self h =
           Inr (NdArray1 (rotate_for_start_month (map (\<lambda>v. v + dhw (insts h self) / 8760) hs)
                  (start_month (insts h self)) (UPM (insts h self))))"
  using assms
  by (simp add: hourly_heating_load_def Let_def py_add_def np_binop_def correct_for_start_month_arr)

lemma cooling_getter_arr:
  assumes "objs h (stored_hourly_cooling_load (insts h self)) = NdArray1 cs"
    and "start_month (insts h self) \<le> 13"
  shows "hourly_cooling_load self h =
           Inr (NdArray1 (rotate_for_start_month cs (start_month (insts h self)) (UPM (insts h self))))"
  using assms
  by (simp add: hourly_cooling_load_def Let_def correct_for_start_month_arr)

lemma heating_getter_list:
  assumes "objs h (stored_hourly_heating_load (insts h self)) = PyList d"
  shows "hourly_heating_load self h = Inl TypeError"
  using assms by (simp add: hourly_heating_load_def Let_def py_add_def)

lemma imbalance_arr:
  assumes "objs h (stored_hourly_heating_load (insts h self)) = NdArray1 hs"
    and "objs h (stored_hourly_cooling_load (insts h self)) = NdArray1 cs"
    and "length hs = 8760" "length cs = 8760"
    and "start_month (insts h self) \<le> 13"
  shows "imbalance self h = Inr (sum_list cs - (sum_list hs + dhw (insts h self)))"
  using assms
  by (simp add: imbalance_def heating_getter_arr cooling_getter_arr py_sub_def np_binop_def
        broadcast1_def length_rotate_for_start_month sum_list_map2_minus
        sum_rotate_for_start_month sum_list_add_const)

lemma baseload_cooling_arr:
  assumes "objs h (stored_hourly_cooling_load (insts h self)) = NdArray1 cs"
    and "length cs = 8760"
    and "start_month (insts h self) \<le> 13"
  shows "\<exists>b. baseload_cooling self h = Inr b \<and> length b = 12 \<and> sum_list b = sum_list cs"
  using assms
  by (simp add: baseload_cooling_def cooling_getter_arr resample_month_chunks
        length_rotate_for_start_month sum_list_month_chunks UPM_sum length_month_chunks UPM_length
        sum_rotate_for_start_month)

lemma baseload_heating_arr:
  assumes "objs h (stored_hourly_heating_load (insts h self)) = NdArray1 hs"
    and "length hs = 8760"
    and "start_month (insts h self) \<le> 13"
  shows "\<exists>b. baseload_heating self h = Inr b \<and> length b = 12
            \<and> sum_list b = sum_list hs + dhw (insts h self)"
  using assms
  by (simp add: baseload_heating_def heating_getter_arr resample_month_chunks
        length_rotate_for_start_month sum_list_month_chunks UPM_sum length_month_chunks UPM_length
        sum_rotate_for_start_month sum_list_add_const)

section \<open>Construction and addition in the store\<close>

lemma np_array_1d: "as_nd x = Inr d \<Longrightarrow> np_array x = NdArray1 d"
  by (cases x) simp_all

lemma check_input_valid_array:
  "length d = 8760 \<Longrightarrow> \<forall>v\<in>set d. 0 \<le> v \<Longrightarrow> check_input (NdArray1 d) = Inr True"
  by (simp add: check_input_1d)

lemma init_valid:
  assumes "rH < next_obj h" "rC < next_obj h"
    and "as_nd (objs h rH) = Inr H" "length H = 8760" "\<forall>v\<in>set H. 0 \<le> v"
    and "as_nd (objs h rC) = Inr C" "length C = 8760" "\<forall>v\<in>set C. 0 \<le> v"
  shows "init_HourlyGeothermalLoad base (Some rH) (Some rC) sp d h =
     (Inr (next_inst h),
      h\<lparr>objs := (objs h)(next_obj h := np_zeros 8760, Suc (next_obj h) := np_zeros 8760,
                 Suc (Suc (next_obj h)) := NdArray1 H, Suc (Suc (Suc (next_obj h))) := NdArray1 C),
        next_obj := Suc (Suc (Suc (Suc (next_obj h)))),
        insts := (insts h)(next_inst h :=
           \<lparr>hourly_resolution = True, simulation_period = sp, dhw = d,
            start_month = init_start_month base,
            all_months_equal = init_all_months_equal base,
            stored_hourly_heating_load = Suc (Suc (next_obj h)),
            stored_hourly_cooling_load = Suc (Suc (Suc (next_obj h)))\<rparr>),
        next_inst := Suc (next_inst h)\<rparr>)"
  using assms
  by (simp add: init_HourlyGeothermalLoad_def alloc_obj_def alloc_inst_def update_inst_def
        hourly_heating_load_setter_def hourly_cooling_load_setter_def np_array_1d
        check_input_valid_array Let_def)

lemma heating_setter_cases:
  "hourly_heating_load_setter self load h = (r, h') \<Longrightarrow>
     (r = Inr () \<and> h' = update_inst self (\<lambda>s. s\<lparr>stored_hourly_heating_load := load\<rparr>) h)
     \<or> (\<exists>e. r = Inl e \<and> h' = h)"
  by (auto simp: hourly_heating_load_setter_def split: sum.splits if_splits)

lemma cooling_setter_cases:
  "hourly_cooling_load_setter self load h = (r, h') \<Longrightarrow>
     (r = Inr () \<and> h' = update_inst self (\<lambda>s. s\<lparr>stored_hourly_cooling_load := load\<rparr>) h)
     \<or> (\<exists>e. r = Inl e \<and> h' = h)"
  by (auto simp: hourly_cooling_load_setter_def split: sum.splits if_splits)

lemma init_frame:
  assumes "init_HourlyGeothermalLoad base heating_load cooling_load sp d h = (r, h')"
  shows "heap_extends h h'
       \<and> (\<forall>s. r = Inr s \<longrightarrow> s = next_inst h \<and> s < next_inst h'
              \<and> next_obj h \<le> stored_hourly_heating_load (insts h' s)
              \<and> stored_hourly_heating_load (insts h' s) < next_obj h'
              \<and> next_obj h \<le> stored_hourly_cooling_load (insts h' s)
              \<and> stored_hourly_cooling_load (insts h' s) < next_obj h'
              \<and> stored_hourly_heating_load (insts h' s) \<noteq> stored_hourly_cooling_load (insts h' s))"
  using assms
  unfolding init_HourlyGeothermalLoad_def alloc_obj_def alloc_inst_def Let_def heap_extends_def
  by (auto simp: update_inst_def split: prod.splits sum.splits
        dest!: heating_setter_cases cooling_setter_cases)

lemma heap_extends_refl: "heap_extends h h"
  by (simp add: heap_extends_def)

lemma heap_extends_trans: "heap_extends h h1 \<Longrightarrow> heap_extends h1 h2 \<Longrightarrow> heap_extends h h2"
  by (auto simp: heap_extends_def)

lemma heap_extends_alloc_obj: "alloc_obj v h = (r, h') \<Longrightarrow> heap_extends h h'"
  by (auto simp: alloc_obj_def heap_extends_def)

lemma add_frame:
  assumes "add base self other h = (ws, r, h')"
  shows "heap_extends h h'"
proof (cases other)
  case (Foreign m)
  with assms show ?thesis
    by (auto simp: add_def heap_extends_refl split: option.splits sum.splits error.splits)
next
  case (Load oth)
  show ?thesis
  proof (cases "py_add (objs h (stored_hourly_heating_load (insts h self)))
                       (objs h (stored_hourly_heating_load (insts h oth)))")
    case (Inl e)
    with assms Load show ?thesis by (simp add: add_def Let_def heap_extends_refl)
  next
    case hs: (Inr hs)
    obtain r1 h1 where a1: "alloc_obj hs h = (r1, h1)" by (cases "alloc_obj hs h")
    have e1: "heap_extends h h1" using a1 by (rule heap_extends_alloc_obj)
    show ?thesis
    proof (cases "py_add (objs h1 (stored_hourly_cooling_load (insts h self)))
                         (objs h1 (stored_hourly_cooling_load (insts h oth)))")
      case (Inl e)
      with assms Load hs a1 e1 show ?thesis by (simp add: add_def Let_def)
    next
      case cs: (Inr cs)
      obtain r2 h2 where a2: "alloc_obj cs h1 = (r2, h2)" by (cases "alloc_obj cs h1")
      have e2: "heap_extends h1 h2" using a2 by (rule heap_extends_alloc_obj)
      obtain r3 h3 where i3: "init_HourlyGeothermalLoad base (Some r1) (Some r2)
            (max (simulation_period (insts h self)) (simulation_period (insts h oth)))
            (dhw (insts h self) + dhw (insts h oth)) h2 = (r3, h3)"
        by (cases "init_HourlyGeothermalLoad base (Some r1) (Some r2)
            (max (simulation_period (insts h self)) (simulation_period (insts h oth)))
            (dhw (insts h self) + dhw (insts h oth)) h2")
      have e3: "heap_extends h2 h3" using init_frame [OF i3] by simp
      have "h' = h3" using assms Load hs cs a1 a2 i3
        by (auto simp: add_def Let_def split: sum.splits)
      then show ?thesis using e1 e2 e3 by (blast intro: heap_extends_trans)
    qed
  qed
qed

lemma add_fresh:
  assumes "add base self (Load oth) h = (ws, Inr v, h')"
  shows "\<exists>r. v = NewLoad r \<and> next_inst h \<le> r \<and> r < next_inst h'
            \<and> next_obj h \<le> stored_hourly_heating_load (insts h' r)
            \<and> next_obj h \<le> stored_hourly_cooling_load (insts h' r)
            \<and> stored_hourly_heating_load (insts h' r) \<noteq> stored_hourly_cooling_load (insts h' r)"
proof (cases "py_add (objs h (stored_hourly_heating_load (insts h self)))
                     (objs h (stored_hourly_heating_load (insts h oth)))")
  case (Inl e)
  with assms show ?thesis by (simp add: add_def Let_def)
next
  case hs: (Inr hs)
  obtain r1 h1 where a1: "alloc_obj hs h = (r1, h1)" by (cases "alloc_obj hs h")
  have e1: "heap_extends h h1" using a1 by (rule heap_extends_alloc_obj)
  show ?thesis
  proof (cases "py_add (objs h1 (stored_hourly_cooling_load (insts h self)))
                       (objs h1 (stored_hourly_cooling_load (insts h oth)))")
    case (Inl e)
    with assms hs a1 show ?thesis by (simp add: add_def Let_def)
  next
    case cs: (Inr cs)
    obtain r2 h2 where a2: "alloc_obj cs h1 = (r2, h2)" by (cases "alloc_obj cs h1")
    have e2: "heap_extends h1 h2" using a2 by (rule heap_extends_alloc_obj)
    obtain r3 h3 where i3: "init_HourlyGeothermalLoad base (Some r1) (Some r2)
          (max (simulation_period (insts h self)) (simulation_period (insts h oth)))
          (dhw (insts h self) + dhw (insts h oth)) h2 = (r3, h3)"
      by (cases "init_HourlyGeothermalLoad base (Some r1) (Some r2)
          (max (simulation_period (insts h self)) (simulation_period (insts h oth)))
          (dhw (insts h self) + dhw (insts h oth)) h2")
    have res: "h' = h3 \<and> (\<exists>r. r3 = Inr r \<and> v = NewLoad r)" using assms hs cs a1 a2 i3
      by (auto simp: add_def Let_def split: sum.splits)
    then obtain r where r: "r3 = Inr r" "v = NewLoad r" by blast
    have e02: "heap_extends h h2" using e1 e2 by (rule heap_extends_trans)
    from init_frame [OF i3] r res e02 show ?thesis
      by (auto simp: heap_extends_def)
  qed
qed

lemma map2_add_valid:
  fixes a b :: "real list"
  assumes "length a = 8760" "length b = 8760" "\<forall>v\<in>set a. 0 \<le> v" "\<forall>v\<in>set b. 0 \<le> v"
  shows "length (map2 (+) a b) = 8760 \<and> (\<forall>v\<in>set (map2 (+) a b). 0 \<le> v)"
  using assms by (auto simp: set_zip)

lemma add_valid:
  assumes al: "allocated h a" "allocated h b"
    and ha: "objs h (stored_hourly_heating_load (insts h a)) = NdArray1 ha"
    and ca: "objs h (stored_hourly_cooling_load (insts h a)) = NdArray1 ca"
    and hb: "objs h (stored_hourly_heating_load (insts h b)) = NdArray1 hb"
    and cb: "objs h (stored_hourly_cooling_load (insts h b)) = NdArray1 cb"
    and len: "length ha = 8760" "length ca = 8760" "length hb = 8760" "length cb = 8760"
    and nn: "\<forall>v\<in>set ha. 0 \<le> v" "\<forall>v\<in>set ca. 0 \<le> v" "\<forall>v\<in>set hb. 0 \<le> v" "\<forall>v\<in>set cb. 0 \<le> v"
  shows "\<exists>h'. add base a (Load b) h =
           (if simulation_period (insts h a) \<noteq> simulation_period (insts h b)
            then [SimulationPeriodWarning (max (simulation_period (insts h a)) (simulation_period (insts h b)))]
            else [],
            Inr (NewLoad (next_inst h)), h')
         \<and> objs h' (stored_hourly_heating_load (insts h' (next_inst h))) = NdArray1 (map2 (+) ha hb)
         \<and> objs h' (stored_hourly_cooling_load (insts h' (next_inst h))) = NdArray1 (map2 (+) ca cb)
         \<and> simulation_period (insts h' (next_inst h))
              = max (simulation_period (insts h a)) (simulation_period (insts h b))
         \<and> dhw (insts h' (next_inst h)) = dhw (insts h a) + dhw (insts h b)"
proof -
  let ?n = "next_obj h"
  let ?A = "NdArray1 (map2 (+) ha hb)"
  let ?B = "NdArray1 (map2 (+) ca cb)"
  let ?sp = "max (simulation_period (insts h a)) (simulation_period (insts h b))"
  let ?d = "dhw (insts h a) + dhw (insts h b)"
  define h1 where "h1 = h\<lparr>objs := (objs h)(?n := ?A), next_obj := Suc ?n\<rparr>"
  define h2 where "h2 = h1\<lparr>objs := (objs h1)(Suc ?n := ?B), next_obj := Suc (Suc ?n)\<rparr>"
  define h3 where "h3 =
      h2\<lparr>objs := (objs h2)(next_obj h2 := np_zeros 8760, Suc (next_obj h2) := np_zeros 8760,
                 Suc (Suc (next_obj h2)) := ?A, Suc (Suc (Suc (next_obj h2))) := ?B),
        next_obj := Suc (Suc (Suc (Suc (next_obj h2)))),
        insts := (insts h2)(next_inst h2 :=
           \<lparr>hourly_resolution = True, simulation_period = ?sp, dhw = ?d,
            start_month = init_start_month base,
            all_months_equal = init_all_months_equal base,
            stored_hourly_heating_load = Suc (Suc (next_obj h2)),
            stored_hourly_cooling_load = Suc (Suc (Suc (next_obj h2)))\<rparr>),
        next_inst := Suc (next_inst h2)\<rparr>"
  have a1: "alloc_obj ?A h = (?n, h1)" by (simp add: alloc_obj_def h1_def)
  have a2: "alloc_obj ?B h1 = (Suc ?n, h2)" by (simp add: alloc_obj_def h1_def h2_def)
  have s1: "py_add (NdArray1 ha) (NdArray1 hb) = Inr ?A"
    using len by (simp add: py_add_def np_binop_def broadcast1_def)
  have s2: "py_add (NdArray1 ca) (NdArray1 cb) = Inr ?B"
    using len by (simp add: py_add_def np_binop_def broadcast1_def)
  have c1: "objs h1 (stored_hourly_cooling_load (insts h a)) = NdArray1 ca"
       "objs h1 (stored_hourly_cooling_load (insts h b)) = NdArray1 cb"
    using al ca cb by (auto simp: h1_def allocated_def)
  have v1: "length (map2 (+) ha hb) = 8760" "\<forall>v\<in>set (map2 (+) ha hb). 0 \<le> v"
    using map2_add_valid [OF len(1) len(3) nn(1) nn(3)] by simp_all
  have v2: "length (map2 (+) ca cb) = 8760" "\<forall>v\<in>set (map2 (+) ca cb). 0 \<le> v"
    using map2_add_valid [OF len(2) len(4) nn(2) nn(4)] by simp_all
  have i: "init_HourlyGeothermalLoad base (Some ?n) (Some (Suc ?n)) ?sp ?d h2 = (Inr (next_inst h2), h3)"
    unfolding h3_def
    by (rule init_valid) (use v1 v2 in \<open>simp_all add: h1_def h2_def\<close>)
  have k: "next_inst h2 = next_inst h" by (simp add: h1_def h2_def)
  have "add base a (Load b) h =
           (if simulation_period (insts h a) \<noteq> simulation_period (insts h b)
            then [SimulationPeriodWarning ?sp] else [],
            Inr (NewLoad (next_inst h)), h3)"
    using ha hb s1 s2 c1 a1 a2 i k by (simp add: add_def Let_def)
  moreover have "objs h3 (stored_hourly_heating_load (insts h3 (next_inst h))) = ?A"
    "objs h3 (stored_hourly_cooling_load (insts h3 (next_inst h))) = ?B"
    "simulation_period (insts h3 (next_inst h)) = ?sp"
    "dhw (insts h3 (next_inst h)) = ?d"
    by (simp_all add: h3_def h2_def h1_def)
  ultimately show ?thesis by blast
qed

section \<open>The sample store evaluated\<close>

lemma example_objs_simps:
  "objs example_heap 0 = NdArray1 (replicate 8760 1)"
  "objs example_heap 1 = NdArray1 (replicate 8760 2)"
  "objs example_heap (Suc 0) = NdArray1 (replicate 8760 2)"
  "objs example_heap 2 = NdArray1 (replicate 8760 3)"
  "objs example_heap 3 = NdArray1 (replicate 8760 4)"
  "objs example_heap 4 = NdArray1 (replicate 8760 0)"
  "objs example_heap 5 = NdArray1 (replicate 8760 0)"
  "objs example_heap 6 = NdArray1 (replicate 8760 1)"
  "objs example_heap 7 = NdArray1 (replicate 8760 0)"
  "objs example_heap 8 = NdArray1 (replicate 8760 0)"
  "objs example_heap 9 = NdArray1 (replicate 8760 1)"
  "objs example_heap 10 = PyFloat 5"
  "objs example_heap 11 = PyList (replicate 8759 0)"
  "objs example_heap 12 = PyList (- 1 # replicate 8759 0)"
  "objs example_heap 13 = PyList (replicate 8760 0)"
  "next_obj example_heap = 14"
  "next_inst example_heap = 5"
  by (simp_all add: example_heap_def example_objs_def)

lemma example_insts_simps:
  "insts example_heap 0 = example_load 20 0 1 True 0 1"
  "insts example_heap 1 = example_load 25 100 3 False 2 3"
  "insts example_heap (Suc 0) = example_load 25 100 3 False 2 3"
  "insts example_heap 2 = example_load 20 8760 9 False 4 5"
  "insts example_heap 3 = example_load 20 0 1 False 6 7"
  "insts example_heap 4 = example_load 20 0 1 False 8 9"
  by (simp_all add: example_heap_def example_insts_def)

lemma example_load_simps:
  "simulation_period (example_load sp d m eq hl cl) = sp"
  "dhw (example_load sp d m eq hl cl) = d"
  "start_month (example_load sp d m eq hl cl) = m"
  "all_months_equal (example_load sp d m eq hl cl) = eq"
  "stored_hourly_heating_load (example_load sp d m eq hl cl) = hl"
  "stored_hourly_cooling_load (example_load sp d m eq hl cl) = cl"
  by (simp_all add: example_load_def)

lemmas example_simps = example_objs_simps example_insts_simps example_load_simps

lemma check_input_valid: "valid_candidate x \<Longrightarrow> check_input x = Inr True"
  by (cases "as_nd x") (simp_all add: valid_candidate_def check_input_1d)

lemma rotate_replicate:
  "rotate_for_start_month (replicate n x) m u = replicate n x"
proof -
  have "replicate (n - k) x @ replicate (min k n) x = replicate n x" for k
    by (simp add: replicate_add [symmetric] del: replicate_add)
  then show ?thesis by (simp add: rotate_for_start_month_def Let_def)
qed

lemma month_chunks_replicate:
  "sum_list ns \<le> n \<Longrightarrow> month_chunks ns (replicate n x) = map (\<lambda>k. replicate k x) ns"
  by (induction ns arbitrary: n) (simp_all add: min_def)

lemma sum_list_all_zero:
  fixes xs :: "real list"
  shows "\<forall>v\<in>set xs. v = 0 \<Longrightarrow> sum_list xs = 0"
  by (induction xs) simp_all

lemma add_delegates:
  "add base self (Foreign (Some (Inr v))) h = ([], Inr (ForeignValue v), h)"
  "add base self (Foreign (Some (Inl TypeError))) h = ([], Inl TypeError, h)"
  "add base self (Foreign (Some (Inl e))) h = ([], Inl e, h)"
  by (simp_all add: add_def split: error.splits)

section \<open>Candidates and the setters\<close>

text \<open>
  Every failing candidate makes a setter raise and leaves the store as it was; the
  exception is \<^verbatim>\<open>ValueError\<close> except for a zero-dimensional array, where it is the
  \<^verbatim>\<open>TypeError\<close> of \<^verbatim>\<open>len\<close>.
\<close>

lemma check_input_invalid:
  "invalid_candidate x \<Longrightarrow>
   check_input x = (case x of NdArray0 _ \<Rightarrow> Inl TypeError | _ \<Rightarrow> Inr False)"
proof (cases "as_nd x")
  case (Inl r)
  then show ?thesis by (cases x) (simp_all add: check_input_def)
next
  case (Inr d)
  assume "invalid_candidate x"
  with Inr have "check_input x = Inr False"
    by (auto simp: invalid_candidate_def check_input_1d not_le)
  with Inr show ?thesis by (cases x) simp_all
qed

lemma setters_on_candidates:
  "(invalid_candidate (objs h load) \<longrightarrow>
      set_hourly_heating self load h
        = (Inl (case objs h load of NdArray0 _ \<Rightarrow> TypeError | _ \<Rightarrow> ValueError), h)
      \<and> hourly_heating_load_setter self load h = set_hourly_heating self load h
      \<and> set_hourly_cooling self load h
        = (Inl (case objs h load of NdArray0 _ \<Rightarrow> TypeError | _ \<Rightarrow> ValueError), h)
      \<and> hourly_cooling_load_setter self load h = set_hourly_cooling self load h)
   \<and> (valid_candidate (objs h load) \<longrightarrow>
      set_hourly_heating self load h
        = (Inr (), h\<lparr>insts := (insts h)(self := (insts h self)\<lparr>stored_hourly_heating_load := load\<rparr>)\<rparr>)
      \<and> hourly_heating_load_setter self load h = set_hourly_heating self load h
      \<and> set_hourly_cooling self load h
        = (Inr (), h\<lparr>insts := (insts h)(self := (insts h self)\<lparr>stored_hourly_cooling_load := load\<rparr>)\<rparr>)
      \<and> hourly_cooling_load_setter self load h = set_hourly_cooling self load h)"
  by (cases "objs h load")
     (simp_all add: set_hourly_heating_def set_hourly_cooling_def hourly_heating_load_setter_def
        hourly_cooling_load_setter_def check_input_invalid check_input_valid update_inst_def
        valid_candidate_def)

section \<open>Instances that hold arrays\<close>

text \<open>
  What the getters and the imbalance give when the stored objects are arrays, as the
  constructor leaves them, and the start month lies in 1..12.
\<close>

lemma getters_on_arrays:
  "(objs h (stored_hourly_heating_load (insts h self)) = NdArray1 hs
      \<and> objs h (stored_hourly_cooling_load (insts h self)) = NdArray1 cs
      \<and> 1 \<le> start_month (insts h self) \<and> start_month (insts h self) \<le> 12 \<longrightarrow>
      hourly_heating_load self h
        = Inr (NdArray1 (rotate_for_start_month (map (\<lambda>v. v + dhw (insts h self) / 8760) hs)
                 (start_month (insts h self)) (UPM (insts h self))))
      \<and> hourly_heating_load self h
        = correct_for_start_month (insts h self) (NdArray1 (map (\<lambda>v. v + dhw (insts h self) / 8760) hs))
      \<and> hourly_cooling_load self h
        = Inr (NdArray1 (rotate_for_start_month cs (start_month (insts h self)) (UPM (insts h self))))
      \<and> hourly_cooling_load self h = correct_for_start_month (insts h self) (NdArray1 cs))
   \<and> (rH < next_obj h \<and> rC < next_obj h
      \<and> as_nd (objs h rH) = Inr H \<and> length H = 8760 \<and> (\<forall>v\<in>set H. 0 \<le> v)
      \<and> as_nd (objs h rC) = Inr C \<and> length C = 8760 \<and> (\<forall>v\<in>set C. 0 \<le> v)
      \<and> init_start_month base = 1 \<longrightarrow>
      (\<exists>new h'. init_HourlyGeothermalLoad base (Some rH) (Some rC) sp 0 h = (Inr new, h')
         \<and> hourly_heating_load new h' = Inr (NdArray1 H)
         \<and> hourly_cooling_load new h' = Inr (NdArray1 C)))
   \<and> (objs h (stored_hourly_heating_load (insts h self)) = NdArray1 (replicate 8760 0)
      \<and> dhw (insts h self) = 8760
      \<and> 1 \<le> start_month (insts h self) \<and> start_month (insts h self) \<le> 12 \<longrightarrow>
      hourly_heating_load self h = Inr (NdArray1 (replicate 8760 1)))"
proof (intro conjI impI)
  assume a: "objs h (stored_hourly_heating_load (insts h self)) = NdArray1 hs
      \<and> objs h (stored_hourly_cooling_load (insts h self)) = NdArray1 cs
      \<and> 1 \<le> start_month (insts h self) \<and> start_month (insts h self) \<le> 12"
  then have m: "start_month (insts h self) \<le> 13" by simp
  show "hourly_heating_load self h
        = Inr (NdArray1 (rotate_for_start_month (map (\<lambda>v. v + dhw (insts h self) / 8760) hs)
                 (start_month (insts h self)) (UPM (insts h self))))"
    using a m by (simp add: heating_getter_arr)
  show "hourly_heating_load self h
        = correct_for_start_month (insts h self) (NdArray1 (map (\<lambda>v. v + dhw (insts h self) / 8760) hs))"
    using a by (simp add: hourly_heating_load_def Let_def py_add_def np_binop_def)
  show "hourly_cooling_load self h
        = Inr (NdArray1 (rotate_for_start_month cs (start_month (insts h self)) (UPM (insts h self))))"
    using a m by (simp add: cooling_getter_arr)
  show "hourly_cooling_load self h = correct_for_start_month (insts h self) (NdArray1 cs)"
    using a by (simp add: hourly_cooling_load_def Let_def)
next
  assume b: "rH < next_obj h \<and> rC < next_obj h
      \<and> as_nd (objs h rH) = Inr H \<and> length H = 8760 \<and> (\<forall>v\<in>set H. 0 \<le> v)
      \<and> as_nd (objs h rC) = Inr C \<and> length C = 8760 \<and> (\<forall>v\<in>set C. 0 \<le> v)
      \<and> init_start_month base = 1"
  let ?h' = "snd (init_HourlyGeothermalLoad base (Some rH) (Some rC) sp 0 h)"
  have i: "init_HourlyGeothermalLoad base (Some rH) (Some rC) sp 0 h = (Inr (next_inst h), ?h')"
    using b init_valid [of rH h rC H C base sp 0] by simp
  have f: "objs ?h' (stored_hourly_heating_load (insts ?h' (next_inst h))) = NdArray1 H"
    "objs ?h' (stored_hourly_cooling_load (insts ?h' (next_inst h))) = NdArray1 C"
    "start_month (insts ?h' (next_inst h)) = 1" "dhw (insts ?h' (next_inst h)) = 0"
    using b init_valid [of rH h rC H C base sp 0] by simp_all
  have "hourly_heating_load (next_inst h) ?h' = Inr (NdArray1 H)"
    using f by (simp add: heating_getter_arr rotate_for_start_month_def)
  moreover have "hourly_cooling_load (next_inst h) ?h' = Inr (NdArray1 C)"
    using f by (simp add: cooling_getter_arr rotate_for_start_month_def)
  ultimately show "\<exists>new h'. init_HourlyGeothermalLoad base (Some rH) (Some rC) sp 0 h = (Inr new, h')
         \<and> hourly_heating_load new h' = Inr (NdArray1 H)
         \<and> hourly_cooling_load new h' = Inr (NdArray1 C)"
    using i by blast
next
  assume c: "objs h (stored_hourly_heating_load (insts h self)) = NdArray1 (replicate 8760 0)
      \<and> dhw (insts h self) = 8760
      \<and> 1 \<le> start_month (insts h self) \<and> start_month (insts h self) \<le> 12"
  then show "hourly_heating_load self h = Inr (NdArray1 (replicate 8760 1))"
    by (simp add: heating_getter_arr rotate_replicate)
qed

lemma imbalance_on_arrays:
  assumes "objs h (stored_hourly_heating_load (insts h self)) = NdArray1 hs"
    and "objs h (stored_hourly_cooling_load (insts h self)) = NdArray1 cs"
    and "length hs = 8760" "length cs = 8760"
    and "1 \<le> start_month (insts h self)" "start_month (insts h self) \<le> 12"
  shows "imbalance self h = Inr (sum_list cs - (sum_list hs + dhw (insts h self)))
       \<and> (\<exists>c g. hourly_cooling_load self h = Inr c \<and> hourly_heating_load self h = Inr g
              \<and> imbalance self h = Inr (np_sum c - np_sum g))
       \<and> (\<exists>bc bh. baseload_cooling self h = Inr bc \<and> baseload_heating self h = Inr bh
              \<and> imbalance self h = Inr (sum_list bc - sum_list bh))
       \<and> (dhw (insts h self) = 0 \<and> (\<forall>v\<in>set cs. v = 0) \<and> 0 < sum_list hs \<longrightarrow>
              (\<exists>i. imbalance self h = Inr i \<and> i < 0))
       \<and> (dhw (insts h self) = 0 \<and> (\<forall>v\<in>set hs. v = 0) \<and> 0 < sum_list cs \<longrightarrow>
              (\<exists>i. imbalance self h = Inr i \<and> 0 < i))"
proof -
  have m: "start_month (insts h self) \<le> 13" using assms by simp
  have i: "imbalance self h = Inr (sum_list cs - (sum_list hs + dhw (insts h self)))"
    using assms(1-4) m by (rule imbalance_arr)
  have g: "\<exists>c g. hourly_cooling_load self h = Inr c \<and> hourly_heating_load self h = Inr g
              \<and> imbalance self h = Inr (np_sum c - np_sum g)"
    using assms(1-4) m
    by (simp add: i heating_getter_arr cooling_getter_arr sum_rotate_for_start_month
          sum_list_add_const)
  obtain bc where bc: "baseload_cooling self h = Inr bc" "length bc = 12"
      "sum_list bc = sum_list cs"
    using baseload_cooling_arr [OF assms(2) assms(4) m] by blast
  obtain bh where bh: "baseload_heating self h = Inr bh" "length bh = 12"
      "sum_list bh = sum_list hs + dhw (insts h self)"
    using baseload_heating_arr [OF assms(1) assms(3) m] by blast
  have b: "\<exists>bc bh. baseload_cooling self h = Inr bc \<and> baseload_heating self h = Inr bh
              \<and> imbalance self h = Inr (sum_list bc - sum_list bh)"
    using bc bh i by simp
  have n: "dhw (insts h self) = 0 \<and> (\<forall>v\<in>set cs. v = 0) \<and> 0 < sum_list hs \<longrightarrow>
              (\<exists>i. imbalance self h = Inr i \<and> i < 0)"
    using i by (simp add: sum_list_all_zero)
  have p: "dhw (insts h self) = 0 \<and> (\<forall>v\<in>set hs. v = 0) \<and> 0 < sum_list cs \<longrightarrow>
              (\<exists>i. imbalance self h = Inr i \<and> 0 < i)"
    using i by (simp add: sum_list_all_zero)
  from i g b n p show ?thesis by blast
qed

section \<open>Instances that hold lists\<close>

text \<open>
  A setter leaves a validated list in the slot. Two such lists are concatenated by
  \<^verbatim>\<open>+\<close>, so the constructor called by \<^verbatim>\<open>__add__\<close> refuses the result; and the
  imbalance stops at the heating getter.
\<close>

lemma add_lists_raise:
  assumes "allocated h a" "allocated h b"
    and "objs h (stored_hourly_heating_load (insts h a)) = PyList x"
    and "objs h (stored_hourly_heating_load (insts h b)) = PyList y"
    and "length x + length y \<noteq> 8760"
    and "objs h (stored_hourly_cooling_load (insts h a)) = NdArray1 ca"
    and "objs h (stored_hourly_cooling_load (insts h b)) = NdArray1 cb"
    and "length ca = length cb"
  shows "fst (snd (add base a (Load b) h)) = Inl ValueError"
  using assms
  by (simp add: add_def Let_def allocated_def alloc_obj_def alloc_inst_def
        init_HourlyGeothermalLoad_def hourly_heating_load_setter_def
        py_add_def np_binop_def broadcast1_def check_input_1d)

lemma imbalance_list:
  assumes "objs h (stored_hourly_heating_load (insts h self)) = PyList d"
    and "objs h (stored_hourly_cooling_load (insts h self)) = NdArray1 cs"
    and "start_month (insts h self) \<le> 13"
  shows "imbalance self h = Inl TypeError"
  using assms by (simp add: imbalance_def cooling_getter_arr heating_getter_list)

lemma example_later_simps:
  "objs example_zero_dim 14 = NdArray0 5"
  "objs example_ones_list 14 = PyList (replicate 8760 1)"
  "insts example_ones_list 3 = example_load 20 0 1 False 6 7"
  "objs example_ones_list 6 = NdArray1 (replicate 8760 1)"
  "objs example_ones_list 7 = NdArray1 (replicate 8760 0)"
  by (simp_all add: example_zero_dim_def example_ones_list_def alloc_obj_def example_simps)

section \<open>The claims\<close>

text \<open>
  C1. \<^verbatim>\<open>a + b\<close> does not return the elementwise sum for every two instances. After each
  operand has been given a valid list of 8760 values by \<^verbatim>\<open>set_hourly_heating\<close>, the slot
  holds that list; \<^verbatim>\<open>self._hourly_heating_load + other._hourly_heating_load\<close> then
  concatenates the two lists to 17520 values, the constructor's check refuses that length,
  and \<^verbatim>\<open>a + b\<close> raises \<^verbatim>\<open>ValueError\<close>. On operands that hold arrays the sums are
  elementwise (lemma \<open>add_valid\<close>).
\<close>

theorem add_of_list_holders_raises:
  "objs example_list_holders (stored_hourly_heating_load (insts example_list_holders 0))
     = PyList (replicate 8760 0)
   \<and> objs example_list_holders (stored_hourly_heating_load (insts example_list_holders 1))
     = PyList (replicate 8760 0)
   \<and> fst (snd (add example_base 0 (Load 1) example_list_holders)) = Inl ValueError"
proof -
  have v: "check_input (PyList (replicate 8760 0)) = Inr True"
    by (simp add: check_input_1d)
  have s: "example_list_holders =
      example_heap\<lparr>insts := (insts example_heap)
         (0 := (insts example_heap 0)\<lparr>stored_hourly_heating_load := 13\<rparr>,
          1 := (insts example_heap 1)\<lparr>stored_hourly_heating_load := 13\<rparr>)\<rparr>"
    by (simp add: example_list_holders_def set_hourly_heating_def
          hourly_heating_load_setter_def update_inst_def example_simps v)
  have f: "objs example_list_holders (stored_hourly_heating_load (insts example_list_holders 0))
      = PyList (replicate 8760 0)"
    "objs example_list_holders (stored_hourly_heating_load (insts example_list_holders 1))
      = PyList (replicate 8760 0)"
    "objs example_list_holders (stored_hourly_cooling_load (insts example_list_holders 0))
      = NdArray1 (replicate 8760 2)"
    "objs example_list_holders (stored_hourly_cooling_load (insts example_list_holders 1))
      = NdArray1 (replicate 8760 4)"
    "allocated example_list_holders 0" "allocated example_list_holders 1"
    by (simp_all add: s example_simps allocated_def)
  have "fst (snd (add example_base 0 (Load 1) example_list_holders)) = Inl ValueError"
    by (rule add_lists_raise [OF f(5) f(6) f(1) f(2) _ f(3) f(4)]) simp_all
  with f show ?thesis by simp
qed

text \<open>
  C2. A setter does not raise \<^verbatim>\<open>ValueError\<close> on every failing candidate. For the
  zero-dimensional array \<^verbatim>\<open>np.array(5.0)\<close>, a scalar where a sequence is due, the check
  raises \<^verbatim>\<open>TypeError\<close> at \<^verbatim>\<open>len\<close>, and both setters and both property assignments let
  it pass through; the store is unchanged. On every other failing candidate the setters raise
  \<^verbatim>\<open>ValueError\<close> and leave the store unchanged (lemma \<open>setters_on_candidates\<close>).
\<close>

theorem setter_zero_dim_raises_type_error:
  "objs example_zero_dim 14 = np_array (PyFloat 5)
   \<and> set_hourly_heating 0 14 example_zero_dim = (Inl TypeError, example_zero_dim)
   \<and> hourly_heating_load_setter 0 14 example_zero_dim = (Inl TypeError, example_zero_dim)
   \<and> set_hourly_cooling 0 14 example_zero_dim = (Inl TypeError, example_zero_dim)
   \<and> hourly_cooling_load_setter 0 14 example_zero_dim = (Inl TypeError, example_zero_dim)"
  by (simp add: example_later_simps set_hourly_heating_def set_hourly_cooling_def
        hourly_heating_load_setter_def hourly_cooling_load_setter_def check_input_def)

text \<open>
  C3. The heating getter does not return the rotated series for every instance. Given the
  same valid list of 8760 zeros, the constructor copies it into an array and the getter
  reads the series back, but \<^verbatim>\<open>set_hourly_heating\<close> keeps the list itself, and the getter
  then raises \<^verbatim>\<open>TypeError\<close> at \<^verbatim>\<open>self._hourly_heating_load + self.dhw / 8760\<close>. On
  instances that hold arrays the getters are as the claim says (lemma
  \<open>getters_on_arrays\<close>).
\<close>

theorem getter_after_list_setter_raises:
  "objs example_heap 13 = PyList (replicate 8760 0)
   \<and> (\<exists>new h'. init_HourlyGeothermalLoad example_base (Some 13) (Some 1) 20 0 example_heap
                  = (Inr new, h')
         \<and> hourly_heating_load new h' = Inr (NdArray1 (replicate 8760 0)))
   \<and> fst (set_hourly_heating 0 13 example_heap) = Inr ()
   \<and> hourly_heating_load 0 (snd (set_hourly_heating 0 13 example_heap)) = Inl TypeError"
proof -
  have v: "check_input (PyList (replicate 8760 0)) = Inr True"
    by (simp add: check_input_1d)
  have c: "\<exists>new h'. init_HourlyGeothermalLoad example_base (Some 13) (Some 1) 20 0 example_heap
                  = (Inr new, h')
         \<and> hourly_heating_load new h' = Inr (NdArray1 (replicate 8760 0))"
  proof -
    let ?r = "init_HourlyGeothermalLoad example_base (Some 13) (Some 1) 20 0 example_heap"
    have i: "13 < next_obj example_heap" "1 < next_obj example_heap"
      "as_nd (objs example_heap 13) = Inr (replicate 8760 0)"
      "as_nd (objs example_heap 1) = Inr (replicate 8760 2)"
      by (simp_all add: example_simps)
    have r: "fst ?r = Inr (next_inst example_heap)"
      "objs (snd ?r) (stored_hourly_heating_load (insts (snd ?r) (next_inst example_heap)))
         = NdArray1 (replicate 8760 0)"
      "start_month (insts (snd ?r) (next_inst example_heap)) = 1"
      "dhw (insts (snd ?r) (next_inst example_heap)) = 0"
      using init_valid [OF i(1) i(2) i(3) _ _ i(4), of example_base 20 0]
      by (simp_all add: example_base_def)
    have "hourly_heating_load (next_inst example_heap) (snd ?r) = Inr (NdArray1 (replicate 8760 0))"
      using r(2-4) by (simp add: heating_getter_arr rotate_for_start_month_def)
    moreover have "?r = (Inr (next_inst example_heap), snd ?r)"
      using r(1) by (simp add: prod_eq_iff)
    ultimately show ?thesis by blast
  qed
  have "fst (set_hourly_heating 0 13 example_heap) = Inr ()"
    "hourly_heating_load 0 (snd (set_hourly_heating 0 13 example_heap)) = Inl TypeError"
    by (simp_all add: set_hourly_heating_def hourly_heating_load_setter_def update_inst_def
          example_simps v heating_getter_list)
  with c show ?thesis by (simp add: example_simps)
qed

text \<open>
  C4. \<^verbatim>\<open>_check_input\<close> does raise: a zero-dimensional array, which is what
  \<^verbatim>\<open>np.array\<close> makes of a single number, passes the \<^verbatim>\<open>isinstance\<close> test and then has
  no \<^verbatim>\<open>len\<close>, so the check ends in a \<^verbatim>\<open>TypeError\<close> instead of returning false.
\<close>

theorem check_input_zero_dim_raises:
  "check_input (np_array (PyFloat 5)) = Inl TypeError"
  by (simp add: check_input_def)

text \<open>
  C5. For every series of 8760 values, \<^verbatim>\<open>resample_to_monthly\<close> cuts it into 12
  contiguous chunks whose sizes are the hours per month (730 each in the
  all-months-equal mode) and whose concatenation is the series itself, and returns the
  maximum of each chunk as peak and the sum of each chunk as baseload; so the twelve
  baseloads add up to the sum of the series.
\<close>

theorem resample_to_monthly_partition:
  assumes "as_nd x = Inr xs" "length xs = 8760"
  shows "array_split_obj x (butlast (np_cumsum (UPM s))) = Inr (month_chunks (UPM s) xs)
       \<and> resample_to_monthly s x =
           Inr (map (\<lambda>c. Max (set c)) (month_chunks (UPM s) xs),
                map sum_list (month_chunks (UPM s) xs))
       \<and> length (month_chunks (UPM s) xs) = 12
       \<and> map length (month_chunks (UPM s) xs) = UPM s
       \<and> (all_months_equal s \<longrightarrow> map length (month_chunks (UPM s) xs) = replicate 12 (8760 div 12))
       \<and> concat (month_chunks (UPM s) xs) = xs
       \<and> sum_list (map sum_list (month_chunks (UPM s) xs)) = sum_list xs"
proof -
  have sp: "array_split_obj x (butlast (np_cumsum (UPM s))) = Inr (month_chunks (UPM s) xs)"
    using assms by (cases x) (simp_all add: array_split_month_chunks UPM_nonempty UPM_sum)
  have len: "map length (month_chunks (UPM s) xs) = UPM s"
    using assms(2) by (simp add: map_length_month_chunks UPM_sum)
  have eq: "all_months_equal s \<longrightarrow> map length (month_chunks (UPM s) xs) = replicate 12 (8760 div 12)"
  proof
    assume "all_months_equal s"
    then have "UPM s = replicate 12 (8760 div 12)" by (simp add: UPM_def)
    with len show "map length (month_chunks (UPM s) xs) = replicate 12 (8760 div 12)" by metis
  qed
  have rs: "resample_to_monthly s x =
           Inr (map (\<lambda>c. Max (set c)) (month_chunks (UPM s) xs),
                map sum_list (month_chunks (UPM s) xs))"
    using assms by (rule resample_month_chunks)
  have cc: "concat (month_chunks (UPM s) xs) = xs"
    using assms(2) by (simp add: concat_month_chunks UPM_sum)
  have sm: "sum_list (map sum_list (month_chunks (UPM s) xs)) = sum_list xs"
    using assms(2) by (simp add: sum_list_month_chunks UPM_sum)
  have "length (month_chunks (UPM s) xs) = 12" by (simp add: length_month_chunks UPM_length)
  with sp len eq rs cc sm show ?thesis by blast
qed

theorem resample_to_monthly_partition_witness:
  "resample_to_monthly (example_load 25 100 3 False 2 3) (NdArray1 (replicate 8760 1))
     = Inr ([1, 1, 1, 1, 1, 1, 1, 1, 1, 1, 1, 1],
            [744, 672, 744, 720, 744, 720, 744, 744, 720, 744, 720, 744])
   \<and> resample_to_monthly (example_load 20 0 1 True 0 1) (NdArray1 (replicate 8760 1))
     = Inr (replicate 12 1, replicate 12 730)"
  using resample_to_monthly_partition [of "NdArray1 (replicate 8760 1)" "replicate 8760 1"
      "example_load 25 100 3 False 2 3"]
    resample_to_monthly_partition [of "NdArray1 (replicate 8760 1)" "replicate 8760 1"
      "example_load 20 0 1 True 0 1"]
  by (simp add: UPM_def example_simps month_chunks_replicate sum_list_replicate)

text \<open>
  C6. For every series of 8760 values and every start month in 1..12,
  \<^verbatim>\<open>correct_for_start_month\<close> returns the series unchanged for start month 1 and
  otherwise \<^verbatim>\<open>series[start_hour:]\<close> followed by \<^verbatim>\<open>series[:start_hour]\<close>, where the start
  hour is the sum of the hours of the months before the start month. The result has the
  same length and the same multiset of values, position \<open>i\<close> of the result holds position
  \<open>(i + start_hour) mod 8760\<close> of the series, that index map is a bijection on the 8760
  positions, and rotating the result by the complementary offset gives the series back.
\<close>

theorem correct_for_start_month_rotation:
  assumes "length xs = 8760" "1 \<le> start_month s" "start_month s \<le> 12"
  shows "start_hour s = Inr (sum_list (take (nat (start_month s - 1)) (UPM s)))
       \<and> sum_list (take (nat (start_month s - 1)) (UPM s)) \<le> 8760
       \<and> (start_month s = 1 \<longrightarrow> correct_for_start_month s (NdArray1 xs) = Inr (NdArray1 xs))
       \<and> (start_month s \<noteq> 1 \<longrightarrow>
            correct_for_start_month s (NdArray1 xs)
              = Inr (NdArray1 (drop (sum_list (take (nat (start_month s - 1)) (UPM s))) xs
                             @ take (sum_list (take (nat (start_month s - 1)) (UPM s))) xs)))
       \<and> correct_for_start_month s (NdArray1 xs)
            = Inr (NdArray1 (rotate_for_start_month xs (start_month s) (UPM s)))
       \<and> length (rotate_for_start_month xs (start_month s) (UPM s)) = 8760
       \<and> mset (rotate_for_start_month xs (start_month s) (UPM s)) = mset xs
       \<and> (\<forall>i<8760. rotate_for_start_month xs (start_month s) (UPM s) ! i
              = xs ! ((i + sum_list (take (nat (start_month s - 1)) (UPM s))) mod 8760))
       \<and> bij_betw (\<lambda>i. (i + sum_list (take (nat (start_month s - 1)) (UPM s))) mod 8760)
            {..<8760} {..<8760}
       \<and> drop (8760 - sum_list (take (nat (start_month s - 1)) (UPM s)))
               (rotate_for_start_month xs (start_month s) (UPM s))
          @ take (8760 - sum_list (take (nat (start_month s - 1)) (UPM s)))
               (rotate_for_start_month xs (start_month s) (UPM s)) = xs"
proof -
  let ?sh = "sum_list (take (nat (start_month s - 1)) (UPM s))"
  let ?ys = "rotate_for_start_month xs (start_month s) (UPM s)"
  have m: "start_month s \<le> 13" using assms by simp
  have le: "?sh \<le> 8760" by (rule take_UPM_le)
  have ys: "?ys = drop ?sh xs @ take ?sh xs"
  proof (cases "start_month s = 1")
    case True
    then show ?thesis by (simp add: rotate_for_start_month_def)
  next
    case False
    then show ?thesis by (simp add: rotate_for_start_month_def Let_def)
  qed
  have 1: "start_hour s = Inr ?sh" using m by (rule start_hour_eq)
  have 2: "start_month s = 1 \<longrightarrow> correct_for_start_month s (NdArray1 xs) = Inr (NdArray1 xs)"
    by (simp add: correct_for_start_month_def)
  have 3: "correct_for_start_month s (NdArray1 xs) = Inr (NdArray1 ?ys)"
    using m by (rule correct_for_start_month_arr)
  have 4: "start_month s \<noteq> 1 \<longrightarrow>
            correct_for_start_month s (NdArray1 xs) = Inr (NdArray1 (drop ?sh xs @ take ?sh xs))"
    using 3 ys by simp
  have 5: "length ?ys = 8760" using assms(1) by (simp add: length_rotate_for_start_month)
  have 6: "mset ?ys = mset xs" unfolding ys by (rule rot_mset)
  have 7: "\<forall>i<8760. ?ys ! i = xs ! ((i + ?sh) mod 8760)"
    unfolding ys using rot_nth [of ?sh xs] le assms(1) by simp
  have 8: "bij_betw (\<lambda>i. (i + ?sh) mod 8760) {..<8760} {..<8760}"
    using le by (intro rot_index_bij) simp_all
  have 9: "drop (8760 - ?sh) ?ys @ take (8760 - ?sh) ?ys = xs"
    unfolding ys using rot_back [of ?sh xs] le assms(1) by simp
  from 1 le 2 4 3 5 6 7 8 9 show ?thesis by blast
qed

theorem correct_for_start_month_rotation_witness:
  "correct_for_start_month (example_load 25 100 3 False 2 3)
       (NdArray1 (replicate 1416 1 @ replicate 7344 2))
     = Inr (NdArray1 (replicate 7344 2 @ replicate 1416 1))
   \<and> start_hour (example_load 25 100 3 False 2 3) = Inr 1416"
  using correct_for_start_month_rotation [of "replicate 1416 1 @ replicate 7344 2"
      "example_load 25 100 3 False 2 3"]
  by (simp add: example_simps UPM_def)

text \<open>
  C7. \<^verbatim>\<open>imbalance\<close> is not the sum of cooling minus the sum of heating for every
  instance. An instance with an all-zero cooling array, \<^verbatim>\<open>dhw = 0\<close> and a heating array of
  8760 ones has imbalance -8760; after \<^verbatim>\<open>set_hourly_heating\<close> with a list of the same
  8760 ones the slot holds the list, and \<^verbatim>\<open>imbalance\<close> raises \<^verbatim>\<open>TypeError\<close> in the heating
  getter instead of being negative. On instances that hold arrays the imbalance is as the
  claim says (lemma \<open>imbalance_on_arrays\<close>).
\<close>

theorem imbalance_after_list_setter_raises:
  "imbalance 3 example_ones_list = Inr (- 8760)
   \<and> fst (set_hourly_heating 3 14 example_ones_list) = Inr ()
   \<and> objs (snd (set_hourly_heating 3 14 example_ones_list))
        (stored_hourly_heating_load (insts (snd (set_hourly_heating 3 14 example_ones_list)) 3))
       = PyList (replicate 8760 1)
   \<and> imbalance 3 (snd (set_hourly_heating 3 14 example_ones_list)) = Inl TypeError"
proof -
  have v: "check_input (PyList (replicate 8760 1)) = Inr True"
    by (simp add: check_input_1d)
  have a: "imbalance 3 example_ones_list = Inr (- 8760)"
    using imbalance_arr [of example_ones_list 3 "replicate 8760 1" "replicate 8760 0"]
    by (simp add: example_later_simps example_simps sum_list_replicate)
  have s: "set_hourly_heating 3 14 example_ones_list =
      (Inr (), example_ones_list\<lparr>insts := (insts example_ones_list)
         (3 := (insts example_ones_list 3)\<lparr>stored_hourly_heating_load := 14\<rparr>)\<rparr>)"
    by (simp add: set_hourly_heating_def hourly_heating_load_setter_def update_inst_def
          example_later_simps v)
  have "imbalance 3 (snd (set_hourly_heating 3 14 example_ones_list)) = Inl TypeError"
    unfolding s
    by (rule imbalance_list [where d = "replicate 8760 1" and cs = "replicate 8760 0"])
       (simp_all add: example_later_simps example_simps)
  with a s show ?thesis by (simp add: example_later_simps)
qed

text \<open>
  C8. When the other operand has no \<^verbatim>\<open>__add__\<close> attribute at all (\<^verbatim>\<open>None\<close>, say), the
  lookup \<^verbatim>\<open>other.__add__\<close> raises \<^verbatim>\<open>AttributeError\<close>; the handler catches only
  \<^verbatim>\<open>TypeError\<close>, so \<^verbatim>\<open>a + other\<close> ends in \<^verbatim>\<open>AttributeError\<close> and not in the type error
  the method means to raise.
\<close>

theorem add_missing_attribute_raises:
  "add base self (Foreign None) h = ([], Inl AttributeError, h)"
  by (simp add: add_def)

text \<open>
  C9. For two allocated instances, evaluating \<^verbatim>\<open>a + b\<close>, whether it returns or raises,
  leaves both instances and the four objects they hold exactly as they were (indeed
  everything allocated before). When it returns, the result is an instance allocated
  during the call, different from both operands, and its two stored arrays are objects
  allocated during the call, different from each other and from the operands' four.
\<close>

theorem add_leaves_operands:
  assumes "allocated h a" "allocated h b"
    and "add base a (Load b) h = (ws, r, h')"
  shows "insts h' a = insts h a \<and> insts h' b = insts h b
       \<and> objs h' (stored_hourly_heating_load (insts h a)) = objs h (stored_hourly_heating_load (insts h a))
       \<and> objs h' (stored_hourly_cooling_load (insts h a)) = objs h (stored_hourly_cooling_load (insts h a))
       \<and> objs h' (stored_hourly_heating_load (insts h b)) = objs h (stored_hourly_heating_load (insts h b))
       \<and> objs h' (stored_hourly_cooling_load (insts h b)) = objs h (stored_hourly_cooling_load (insts h b))
       \<and> heap_extends h h'
       \<and> (\<forall>v. r = Inr v \<longrightarrow>
            (\<exists>n. v = NewLoad n \<and> n \<noteq> a \<and> n \<noteq> b \<and> next_inst h \<le> n \<and> n < next_inst h'
               \<and> next_obj h \<le> stored_hourly_heating_load (insts h' n)
               \<and> next_obj h \<le> stored_hourly_cooling_load (insts h' n)
               \<and> stored_hourly_heating_load (insts h' n) \<noteq> stored_hourly_cooling_load (insts h' n)
               \<and> stored_hourly_heating_load (insts h' n) \<notin>
                    {stored_hourly_heating_load (insts h a), stored_hourly_cooling_load (insts h a),
                     stored_hourly_heating_load (insts h b), stored_hourly_cooling_load (insts h b)}
               \<and> stored_hourly_cooling_load (insts h' n) \<notin>
                    {stored_hourly_heating_load (insts h a), stored_hourly_cooling_load (insts h a),
                     stored_hourly_heating_load (insts h b), stored_hourly_cooling_load (insts h b)}))"
proof -
  have e: "heap_extends h h'" using assms(3) by (rule add_frame)
  have u: "insts h' a = insts h a" "insts h' b = insts h b"
    "objs h' (stored_hourly_heating_load (insts h a)) = objs h (stored_hourly_heating_load (insts h a))"
    "objs h' (stored_hourly_cooling_load (insts h a)) = objs h (stored_hourly_cooling_load (insts h a))"
    "objs h' (stored_hourly_heating_load (insts h b)) = objs h (stored_hourly_heating_load (insts h b))"
    "objs h' (stored_hourly_cooling_load (insts h b)) = objs h (stored_hourly_cooling_load (insts h b))"
    using e assms(1,2) by (simp_all add: heap_extends_def allocated_def)
  have f: "\<forall>v. r = Inr v \<longrightarrow>
            (\<exists>n. v = NewLoad n \<and> n \<noteq> a \<and> n \<noteq> b \<and> next_inst h \<le> n \<and> n < next_inst h'
               \<and> next_obj h \<le> stored_hourly_heating_load (insts h' n)
               \<and> next_obj h \<le> stored_hourly_cooling_load (insts h' n)
               \<and> stored_hourly_heating_load (insts h' n) \<noteq> stored_hourly_cooling_load (insts h' n)
               \<and> stored_hourly_heating_load (insts h' n) \<notin>
                    {stored_hourly_heating_load (insts h a), stored_hourly_cooling_load (insts h a),
                     stored_hourly_heating_load (insts h b), stored_hourly_cooling_load (insts h b)}
               \<and> stored_hourly_cooling_load (insts h' n) \<notin>
                    {stored_hourly_heating_load (insts h a), stored_hourly_cooling_load (insts h a),
                     stored_hourly_heating_load (insts h b), stored_hourly_cooling_load (insts h b)})"
  proof (intro allI impI)
    fix v assume "r = Inr v"
    with assms(3) have "add base a (Load b) h = (ws, Inr v, h')" by simp
    from add_fresh [OF this] obtain n where n: "v = NewLoad n" "next_inst h \<le> n" "n < next_inst h'"
      "next_obj h \<le> stored_hourly_heating_load (insts h' n)"
      "next_obj h \<le> stored_hourly_cooling_load (insts h' n)"
      "stored_hourly_heating_load (insts h' n) \<noteq> stored_hourly_cooling_load (insts h' n)"
      by blast
    with assms(1,2) show "\<exists>n. v = NewLoad n \<and> n \<noteq> a \<and> n \<noteq> b \<and> next_inst h \<le> n \<and> n < next_inst h'
               \<and> next_obj h \<le> stored_hourly_heating_load (insts h' n)
               \<and> next_obj h \<le> stored_hourly_cooling_load (insts h' n)
               \<and> stored_hourly_heating_load (insts h' n) \<noteq> stored_hourly_cooling_load (insts h' n)
               \<and> stored_hourly_heating_load (insts h' n) \<notin>
                    {stored_hourly_heating_load (insts h a), stored_hourly_cooling_load (insts h a),
                     stored_hourly_heating_load (insts h b), stored_hourly_cooling_load (insts h b)}
               \<and> stored_hourly_cooling_load (insts h' n) \<notin>
                    {stored_hourly_heating_load (insts h a), stored_hourly_cooling_load (insts h a),
                     stored_hourly_heating_load (insts h b), stored_hourly_cooling_load (insts h b)}"
      by (auto simp: allocated_def)
  qed
  from u e f show ?thesis by blast
qed

theorem add_leaves_operands_witness:
  "\<exists>h'. add example_base 0 (Load 1) example_heap = ([SimulationPeriodWarning 25], Inr (NewLoad 5), h')
       \<and> insts h' 0 = example_load 20 0 1 True 0 1
       \<and> insts h' 1 = example_load 25 100 3 False 2 3
       \<and> objs h' 0 = NdArray1 (replicate 8760 1) \<and> objs h' 1 = NdArray1 (replicate 8760 2)
       \<and> objs h' 2 = NdArray1 (replicate 8760 3) \<and> objs h' 3 = NdArray1 (replicate 8760 4)
       \<and> 14 \<le> stored_hourly_heating_load (insts h' 5)
       \<and> 14 \<le> stored_hourly_cooling_load (insts h' 5)"
proof -
  have al: "allocated example_heap 0" "allocated example_heap 1"
    by (simp_all add: allocated_def example_simps)
  obtain h' where r: "add example_base 0 (Load 1) example_heap
      = ([SimulationPeriodWarning 25], Inr (NewLoad 5), h')"
    using add_valid [where h = example_heap and a = 0 and b = 1 and base = example_base
      and ha = "replicate 8760 1" and ca = "replicate 8760 2"
      and hb = "replicate 8760 3" and cb = "replicate 8760 4"] al
    by (auto simp: example_simps)
  from add_leaves_operands [OF al r] have
    "insts h' 0 = example_load 20 0 1 True 0 1
       \<and> insts h' 1 = example_load 25 100 3 False 2 3
       \<and> objs h' 0 = NdArray1 (replicate 8760 1) \<and> objs h' 1 = NdArray1 (replicate 8760 2)
       \<and> objs h' 2 = NdArray1 (replicate 8760 3) \<and> objs h' 3 = NdArray1 (replicate 8760 4)
       \<and> 14 \<le> stored_hourly_heating_load (insts h' 5)
       \<and> 14 \<le> stored_hourly_cooling_load (insts h' 5)"
    by (simp add: example_simps)
  with r show ?thesis by blast
qed

text \<open>
  C10. A setter binds the attribute to the very object it was given: no new object is
  allocated and none is changed. So after \<^verbatim>\<open>set_hourly_heating\<close> with a list of 8760
  non-negative numbers, which \<^verbatim>\<open>_check_input\<close> accepts, the attribute holds that list,
  and reading \<^verbatim>\<open>hourly_heating_load\<close> raises \<^verbatim>\<open>TypeError\<close>: a list and the number
  \<^verbatim>\<open>dhw / 8760\<close> do not add.
\<close>

theorem setter_keeps_object:
  "(check_input (objs h load) = Inr True \<longrightarrow>
      fst (set_hourly_heating self load h) = Inr ()
      \<and> stored_hourly_heating_load (insts (snd (set_hourly_heating self load h)) self) = load
      \<and> objs (snd (set_hourly_heating self load h)) = objs h
      \<and> next_obj (snd (set_hourly_heating self load h)) = next_obj h
      \<and> fst (set_hourly_cooling self load h) = Inr ()
      \<and> stored_hourly_cooling_load (insts (snd (set_hourly_cooling self load h)) self) = load
      \<and> objs (snd (set_hourly_cooling self load h)) = objs h
      \<and> next_obj (snd (set_hourly_cooling self load h)) = next_obj h)
   \<and> (objs h load = PyList d \<and> length d = 8760 \<and> (\<forall>v\<in>set d. 0 \<le> v) \<longrightarrow>
      check_input (objs h load) = Inr True
      \<and> objs (snd (set_hourly_heating self load h))
           (stored_hourly_heating_load (insts (snd (set_hourly_heating self load h)) self)) = PyList d
      \<and> hourly_heating_load self (snd (set_hourly_heating self load h)) = Inl TypeError)"
proof -
  have a: "check_input (objs h load) = Inr True \<Longrightarrow>
      set_hourly_heating self load h
        = (Inr (), h\<lparr>insts := (insts h)(self := (insts h self)\<lparr>stored_hourly_heating_load := load\<rparr>)\<rparr>)"
    by (simp add: set_hourly_heating_def hourly_heating_load_setter_def update_inst_def)
  have c: "check_input (objs h load) = Inr True \<Longrightarrow>
      set_hourly_cooling self load h
        = (Inr (), h\<lparr>insts := (insts h)(self := (insts h self)\<lparr>stored_hourly_cooling_load := load\<rparr>)\<rparr>)"
    by (simp add: set_hourly_cooling_def hourly_cooling_load_setter_def update_inst_def)
  have b: "check_input (PyList d) = Inr True" if "length d = 8760" "\<forall>v\<in>set d. 0 \<le> v"
    using that by (simp add: check_input_1d)
  show ?thesis
    using a b c by (auto simp: heating_getter_list)
qed

theorem setter_keeps_object_witness:
  "check_input (objs example_heap 13) = Inr True
   \<and> fst (set_hourly_heating 0 13 example_heap) = Inr ()
   \<and> stored_hourly_heating_load (insts (snd (set_hourly_heating 0 13 example_heap)) 0) = 13
   \<and> hourly_heating_load 0 (snd (set_hourly_heating 0 13 example_heap)) = Inl TypeError"
  using setter_keeps_object [of example_heap 13 0 "replicate 8760 0"]
  by (simp add: example_simps)

end
